theory Spec2Isabelle
  imports Complex_Main
begin

section \<open>Data model\<close>

text \<open>
  The simulation is written in TypeScript. Its \<open>number\<close> values are modelled as real
  numbers and its arithmetic is written with the operations on the reals; NaN and the
  infinities are not part of the model. Where a value is stored and compared or read
  back later, the rounding of the store is written out: the cells of the two
  \<open>Float32Array\<close>s hold single-precision values (\<open>fround\<close>), and the sums, products and
  differences that are stored in them or in the spawn accumulator are IEEE doubles
  (\<open>dround\<close>). Counts and array lengths are natural numbers or integers. The global
  mutable \<open>params\<close>, \<open>nests\<close>, \<open>foodSources\<close> and \<open>obstacles\<close> are passed to the functions
  that read them, and every method returns the objects it mutates. \<open>Math.random()\<close> is a
  parameter of the function that calls it.
\<close>

datatype PheromoneType = HOME | FOOD

datatype AgentState = FORAGING | RETURNING

record SimParams =
  agentCount :: int
  moveSpeed :: real
  evaporationRate :: real
  sensorAngle :: real
  sensorDist :: real
  turnSpeed :: real
  nestCount :: int
  foodCount :: int
  singlePheromoneMode :: bool
  uTurnChance :: real
  excitedSpeedMult :: real
  propagationChance :: real
  excitedDecayRate :: real
  usePheromoneGradient :: bool
  explorationResistance :: real
  excitedTurnSpeedMult :: real
  spawnRate :: real
  enableSortieRegulation :: bool
  enableGiveUp :: bool

text \<open>The default parameters of \<open>main.ts\<close>.\<close>

definition params :: SimParams where
  "params = \<lparr> agentCount = 500, moveSpeed = 3 / 2, evaporationRate = 985 / 1000,
      sensorAngle = pi / 4, sensorDist = 20, turnSpeed = 2 / 10, nestCount = 1,
      foodCount = 2, singlePheromoneMode = True, uTurnChance = 1 / 100,
      excitedSpeedMult = 2, propagationChance = 1 / 10, excitedDecayRate = 1 / 100,
      usePheromoneGradient = True, explorationResistance = 0, excitedTurnSpeedMult = 3,
      spawnRate = 5, enableSortieRegulation = False, enableGiveUp = False \<rparr>"

record Nest =
  nest_x :: real
  nest_y :: real
  nest_r :: real
  surgeTimer :: real

record FoodSource =
  food_x :: real
  food_y :: real
  food_r :: real
  food_surgeTimer :: real

record Obstacle =
  obs_x :: real
  obs_y :: real
  obs_w :: real
  obs_h :: real

text \<open>
  The class \<open>PheromoneGrid\<close>: two \<open>Float32Array\<close>s of \<open>w * h\<close> cells in row-major
  order. A write to a typed array outside its length is ignored, as the list update
  \<open>xs[i := v]\<close> is.
\<close>

record PheromoneGrid =
  width :: nat
  height :: nat
  homeGrid :: "real list"
  foodGrid :: "real list"

definition newPheromoneGrid :: "nat \<Rightarrow> nat \<Rightarrow> PheromoneGrid" where
  "newPheromoneGrid w h =
     \<lparr> width = w, height = h, homeGrid = replicate (w * h) 0, foodGrid = replicate (w * h) 0 \<rparr>"

text \<open>
  What the constructor establishes and every method keeps: both arrays have
  \<open>width * height\<close> cells.
\<close>

definition grid_ok :: "PheromoneGrid \<Rightarrow> bool" where
  "grid_ok g = (length (homeGrid g) = width g * height g \<and>
                length (foodGrid g) = width g * height g)"

section \<open>Rounding to binary floating point\<close>

text \<open>
  Rounding to the nearest value of a binary format with \<open>p\<close> significant bits and the
  least normal exponent \<open>emin\<close>, ties to the even significand, as IEEE 754 prescribes
  for stores and arithmetic. Below \<open>2 ^ emin\<close> the spacing stays that of the least
  binade (subnormal values). Overflow to infinity is not modelled.
\<close>

definition roundEven :: "real \<Rightarrow> int" where
  "roundEven t =
     (let f = \<lfloor>t\<rfloor> in
      if t - of_int f < 1 / 2 then f
      else if t - of_int f > 1 / 2 then f + 1
      else if even f then f else f + 1)"

definition binade :: "real \<Rightarrow> int" where
  "binade x = \<lfloor>log 2 \<bar>x\<bar>\<rfloor>"

definition roundTo :: "nat \<Rightarrow> int \<Rightarrow> real \<Rightarrow> real" where
  "roundTo p emin x =
     (if x = 0 then 0
      else
        (let e = max (binade x) emin;
             ulp = 2 powi (e - int p + 1)
         in ulp * of_int (roundEven (x / ulp))))"

text \<open>The value a \<open>Float32Array\<close> holds after a store, and the value of a double operation.\<close>

definition fround :: "real \<Rightarrow> real" where
  "fround x = roundTo 24 (- 126) x"

definition dround :: "real \<Rightarrow> real" where
  "dround x = roundTo 53 (- 1022) x"

text \<open>The literal \<open>0.001\<close> of \<open>evaporate\<close> is a double.\<close>

definition snapThreshold :: real where
  "snapThreshold = dround (1 / 1000)"

section \<open>PheromoneGrid (main.ts)\<close>

text \<open>\<open>deposit\<close> reads \<open>params.singlePheromoneMode\<close>: the flag is the first argument.\<close>

definition deposit ::
  "bool \<Rightarrow> PheromoneGrid \<Rightarrow> real \<Rightarrow> real \<Rightarrow> PheromoneType \<Rightarrow> real \<Rightarrow> PheromoneGrid" where
  "deposit single g x y type amount =
     (let idx = \<lfloor>y\<rfloor> * int (width g) + \<lfloor>x\<rfloor> in
      if idx \<ge> 0 \<and> idx < int (length (homeGrid g)) then
        (let effectiveType = (if single then HOME else type) in
         if effectiveType = HOME then
           g\<lparr> homeGrid := (homeGrid g)[nat idx :=
                fround (min 1 (dround (homeGrid g ! nat idx + amount)))] \<rparr>
         else
           g\<lparr> foodGrid := (foodGrid g)[nat idx :=
                fround (min 1 (dround (foodGrid g ! nat idx + amount)))] \<rparr>)
      else g)"

definition getLevel ::
  "bool \<Rightarrow> PheromoneGrid \<Rightarrow> real \<Rightarrow> real \<Rightarrow> PheromoneType \<Rightarrow> real" where
  "getLevel single g x y type =
     (if x < 0 \<or> x \<ge> real (width g) \<or> y < 0 \<or> y \<ge> real (height g) then - 1
      else
        (let idx = \<lfloor>y\<rfloor> * int (width g) + \<lfloor>x\<rfloor>;
             effectiveType = (if single then HOME else type)
         in if effectiveType = HOME then homeGrid g ! nat idx else foodGrid g ! nat idx))"

text \<open>The loop of \<open>evaporate\<close>, from index \<open>i\<close> on.\<close>

function evaporate_loop :: "real \<Rightarrow> nat \<Rightarrow> PheromoneGrid \<Rightarrow> PheromoneGrid" where
  "evaporate_loop rate i g =
     (if i < length (homeGrid g) then
        (let g1 = g\<lparr> homeGrid := (homeGrid g)[i := fround (dround (homeGrid g ! i * rate))] \<rparr>;
             g2 = g1\<lparr> foodGrid := (foodGrid g1)[i := fround (dround (foodGrid g1 ! i * rate))] \<rparr>;
             g3 = (if homeGrid g2 ! i < snapThreshold
                   then g2\<lparr> homeGrid := (homeGrid g2)[i := 0] \<rparr> else g2);
             g4 = (if foodGrid g3 ! i < snapThreshold
                   then g3\<lparr> foodGrid := (foodGrid g3)[i := 0] \<rparr> else g3)
         in evaporate_loop rate (i + 1) g4)
      else g)"
  by pat_completeness auto
termination
  by (relation "measure (\<lambda>(rate, i, g). length (homeGrid g) - i)") (auto simp: Let_def)

declare evaporate_loop.simps [simp del]

definition evaporate :: "real \<Rightarrow> PheromoneGrid \<Rightarrow> PheromoneGrid" where
  "evaporate rate g = evaporate_loop rate 0 g"

definition reset :: "PheromoneGrid \<Rightarrow> PheromoneGrid" where
  "reset g = g\<lparr> homeGrid := map (\<lambda>_. 0) (homeGrid g), foodGrid := map (\<lambda>_. 0) (foodGrid g) \<rparr>"

text \<open>The effect of one iteration of the loop of \<open>evaporate\<close> on the cell it visits.\<close>

definition decay_cell :: "real \<Rightarrow> real \<Rightarrow> real" where
  "decay_cell rate v =
     (let stored = fround (dround (v * rate)) in if stored < snapThreshold then 0 else stored)"

section \<open>PheromoneGrid of the earlier revision (unnamed/part_000)\<close>

text \<open>
  The earlier revision declares the class with the same four fields, so its methods are
  modelled over the same record.
\<close>

definition deposit_old ::
  "bool \<Rightarrow> PheromoneGrid \<Rightarrow> real \<Rightarrow> real \<Rightarrow> PheromoneType \<Rightarrow> real \<Rightarrow> PheromoneGrid" where
  "deposit_old single g x y type amount =
     (let idx = \<lfloor>y\<rfloor> * int (width g) + \<lfloor>x\<rfloor> in
      if idx \<ge> 0 \<and> idx < int (length (homeGrid g)) then
        (let effectiveType = (if single then HOME else type) in
         if effectiveType = HOME then
           g\<lparr> homeGrid := (homeGrid g)[nat idx :=
                fround (min 1 (dround (homeGrid g ! nat idx + amount)))] \<rparr>
         else
           g\<lparr> foodGrid := (foodGrid g)[nat idx :=
                fround (min 1 (dround (foodGrid g ! nat idx + amount)))] \<rparr>)
      else g)"

definition getLevel_old ::
  "bool \<Rightarrow> PheromoneGrid \<Rightarrow> real \<Rightarrow> real \<Rightarrow> PheromoneType \<Rightarrow> real" where
  "getLevel_old single g x y type =
     (if x < 0 \<or> x \<ge> real (width g) \<or> y < 0 \<or> y \<ge> real (height g) then - 1
      else
        (let idx = \<lfloor>y\<rfloor> * int (width g) + \<lfloor>x\<rfloor>;
             effectiveType = (if single then HOME else type)
         in if effectiveType = HOME then homeGrid g ! nat idx else foodGrid g ! nat idx))"

function evaporate_loop_old :: "real \<Rightarrow> nat \<Rightarrow> PheromoneGrid \<Rightarrow> PheromoneGrid" where
  "evaporate_loop_old rate i g =
     (if i < length (homeGrid g) then
        (let g1 = g\<lparr> homeGrid := (homeGrid g)[i := fround (dround (homeGrid g ! i * rate))] \<rparr>;
             g2 = g1\<lparr> foodGrid := (foodGrid g1)[i := fround (dround (foodGrid g1 ! i * rate))] \<rparr>;
             g3 = (if homeGrid g2 ! i < snapThreshold
                   then g2\<lparr> homeGrid := (homeGrid g2)[i := 0] \<rparr> else g2);
             g4 = (if foodGrid g3 ! i < snapThreshold
                   then g3\<lparr> foodGrid := (foodGrid g3)[i := 0] \<rparr> else g3)
         in evaporate_loop_old rate (i + 1) g4)
      else g)"
  by pat_completeness auto
termination
  by (relation "measure (\<lambda>(rate, i, g). length (homeGrid g) - i)") (auto simp: Let_def)

declare evaporate_loop_old.simps [simp del]

definition evaporate_old :: "real \<Rightarrow> PheromoneGrid \<Rightarrow> PheromoneGrid" where
  "evaporate_old rate g = evaporate_loop_old rate 0 g"

definition reset_old :: "PheromoneGrid \<Rightarrow> PheromoneGrid" where
  "reset_old g =
     g\<lparr> homeGrid := map (\<lambda>_. 0) (homeGrid g), foodGrid := map (\<lambda>_. 0) (foodGrid g) \<rparr>"

section \<open>Sequences of field operations\<close>

text \<open>
  The three ways the program changes the field: a deposit by an agent, the decay of a
  tick, and a reset from the user interface.
\<close>

datatype FieldOp = Deposit real real PheromoneType real | Decay real | Reset

fun applyOp :: "bool \<Rightarrow> PheromoneGrid \<Rightarrow> FieldOp \<Rightarrow> PheromoneGrid" where
  "applyOp single g (Deposit x y type amount) = deposit single g x y type amount"
| "applyOp single g (Decay rate) = evaporate rate g"
| "applyOp single g Reset = reset g"

text \<open>A deposit of a nonnegative amount, a decay with a rate in \<open>(0, 1]\<close>, or a reset.\<close>

fun valid_op :: "FieldOp \<Rightarrow> bool" where
  "valid_op (Deposit x y type amount) = (0 \<le> amount)"
| "valid_op (Decay rate) = (0 < rate \<and> rate \<le> 1)"
| "valid_op Reset = True"

definition unit_cells :: "real list \<Rightarrow> bool" where
  "unit_cells xs = list_all (\<lambda>v. 0 \<le> v \<and> v \<le> 1) xs"

definition snapped_cells :: "real list \<Rightarrow> bool" where
  "snapped_cells xs = list_all (\<lambda>v. v = 0 \<or> 1 / 1000 \<le> v) xs"

text \<open>The query point lies in \<open>[0, W) \<times> [0, H)\<close>.\<close>

definition inBounds :: "PheromoneGrid \<Rightarrow> real \<Rightarrow> real \<Rightarrow> bool" where
  "inBounds g x y = (0 \<le> x \<and> x < real (width g) \<and> 0 \<le> y \<and> y < real (height g))"

section \<open>Agent\<close>

record Agent =
  agent_x :: real
  agent_y :: real
  angle :: real
  state :: AgentState
  pheromoneStrength :: real
  excitedLevel :: nat
  searchTime :: nat
  givingUp :: bool

text \<open>The constructor; \<open>rnd\<close> is the value of its call of \<open>Math.random()\<close>.\<close>

definition newAgent :: "real \<Rightarrow> real \<Rightarrow> real \<Rightarrow> Agent" where
  "newAgent x y rnd =
     \<lparr> agent_x = x, agent_y = y, angle = rnd * pi * 2, state = FORAGING,
       pheromoneStrength = 1, excitedLevel = 0, searchTime = 0, givingUp = False \<rparr>"

definition hypot :: "real \<Rightarrow> real \<Rightarrow> real" where
  "hypot a b = sqrt (a * a + b * b)"

text \<open>
  \<open>handleObstacles\<close>: the first obstacle whose closed rectangle holds the new position
  sends the agent back to \<open>(prevX, prevY)\<close> and ends the loop.
\<close>

fun handleObstacles :: "Obstacle list \<Rightarrow> real \<Rightarrow> real \<Rightarrow> real \<Rightarrow> Agent \<Rightarrow> Agent" where
  "handleObstacles [] rnd prevX prevY a = a"
| "handleObstacles (obs # rest) rnd prevX prevY a =
     (if agent_x a \<ge> obs_x obs \<and> agent_x a \<le> obs_x obs + obs_w obs \<and>
         agent_y a \<ge> obs_y obs \<and> agent_y a \<le> obs_y obs + obs_h obs
      then a\<lparr> agent_x := prevX, agent_y := prevY, angle := angle a + (pi + (rnd - 1 / 2)) \<rparr>
      else handleObstacles rest rnd prevX prevY a)"

definition handleBoundaries :: "PheromoneGrid \<Rightarrow> Agent \<Rightarrow> Agent" where
  "handleBoundaries grid a =
     (let a1 = (if agent_x a < 0 then a\<lparr> agent_x := 0, angle := pi - angle a \<rparr> else a);
          a2 = (if agent_x a1 \<ge> real (width grid)
                then a1\<lparr> agent_x := real (width grid) - 1, angle := pi - angle a1 \<rparr> else a1);
          a3 = (if agent_y a2 < 0 then a2\<lparr> agent_y := 0, angle := - angle a2 \<rparr> else a2);
          a4 = (if agent_y a3 \<ge> real (height grid)
                then a3\<lparr> agent_y := real (height grid) - 1, angle := - angle a3 \<rparr> else a3)
      in a4)"

text \<open>
  The part of \<open>update\<close> that moves the agent (steps 2 to 4 of its body): the random
  wiggle of the heading, the speed, the tentative move, \<open>handleObstacles\<close> and
  \<open>handleBoundaries\<close>. \<open>rndWiggle\<close> and \<open>rndBounce\<close> are the random values of the wiggle
  and of the rollback.
\<close>

definition update_move ::
  "SimParams \<Rightarrow> Obstacle list \<Rightarrow> PheromoneGrid \<Rightarrow> real \<Rightarrow> real \<Rightarrow> Agent \<Rightarrow> Agent" where
  "update_move p obstacles grid rndWiggle rndBounce a0 =
     (let wiggle = (if excitedLevel a0 > 0 then 5 / 100 else 2 / 10);
          a = a0\<lparr> angle := angle a0 + (rndWiggle - 1 / 2) * wiggle \<rparr>;
          speed0 = moveSpeed p * (if excitedLevel a > 0 then excitedSpeedMult p else 1);
          speed = (if explorationResistance p > 0 then
                     (let currentPheromone =
                            max (getLevel (singlePheromoneMode p) grid (agent_x a) (agent_y a) HOME)
                                (getLevel (singlePheromoneMode p) grid (agent_x a) (agent_y a) FOOD);
                          factor = 1 - explorationResistance p * (1 - currentPheromone)
                      in speed0 * max 0 factor)
                   else speed0);
          prevX = agent_x a;
          prevY = agent_y a;
          moved = a\<lparr> agent_x := agent_x a + cos (angle a) * speed,
                      agent_y := agent_y a + sin (angle a) * speed \<rparr>
      in handleBoundaries grid (handleObstacles obstacles rndBounce prevX prevY moved))"

text \<open>The open rectangle of an obstacle.\<close>

definition strictlyInside :: "Obstacle \<Rightarrow> real \<Rightarrow> real \<Rightarrow> bool" where
  "strictlyInside obs px py =
     (obs_x obs < px \<and> px < obs_x obs + obs_w obs \<and> obs_y obs < py \<and> py < obs_y obs + obs_h obs)"

fun insideAny :: "Obstacle list \<Rightarrow> real \<Rightarrow> real \<Rightarrow> bool" where
  "insideAny [] px py = False"
| "insideAny (obs # rest) px py = (strictlyInside obs px py \<or> insideAny rest px py)"

text \<open>The four perimeter walls that \<open>initMaze\<close> pushes first (\<open>WIDTH = HEIGHT = 600\<close>).\<close>

definition perimeterWalls :: "Obstacle list" where
  "perimeterWalls =
     [\<lparr> obs_x = 0, obs_y = 0, obs_w = 600, obs_h = 10 \<rparr>,
      \<lparr> obs_x = 0, obs_y = 600 - 10, obs_w = 600, obs_h = 10 \<rparr>,
      \<lparr> obs_x = 0, obs_y = 0, obs_w = 10, obs_h = 600 \<rparr>,
      \<lparr> obs_x = 600 - 10, obs_y = 0, obs_w = 10, obs_h = 600 \<rparr>]"

section \<open>State transition and deposit\<close>

text \<open>
  The search for the closest nest. The loop variable \<open>closestNest\<close> is kept as an index
  into \<open>nests\<close> (it starts as \<open>nests[0]\<close>), since the nest it names is mutated later;
  \<open>minDist\<close> starts as \<open>Infinity\<close>, which is \<open>None\<close> here.
\<close>

fun closestNest_loop ::
  "Agent \<Rightarrow> Nest list \<Rightarrow> nat \<Rightarrow> nat \<times> real option \<Rightarrow> nat \<times> real option" where
  "closestNest_loop a [] i (closest, minDist) = (closest, minDist)"
| "closestNest_loop a (nest # rest) i (closest, minDist) =
     (let d = hypot (agent_x a - nest_x nest) (agent_y a - nest_y nest) in
      if (case minDist of None \<Rightarrow> True | Some m \<Rightarrow> d < m)
      then closestNest_loop a rest (i + 1) (i, Some d)
      else closestNest_loop a rest (i + 1) (closest, minDist))"

fun onFood :: "Agent \<Rightarrow> FoodSource list \<Rightarrow> bool" where
  "onFood a [] = False"
| "onFood a (f # rest) =
     (if hypot (agent_x a - food_x f) (agent_y a - food_y f) < food_r f then True
      else onFood a rest)"

text \<open>\<open>distToNest < nestRadius\<close>, where the distance may still be \<open>Infinity\<close>.\<close>

fun atNest :: "real option \<Rightarrow> real \<Rightarrow> bool" where
  "atNest None nestRadius = False"
| "atNest (Some distToNest) nestRadius = (distToNest < nestRadius)"

text \<open>
  The test \<open>distToNest < nestRadius\<close> of \<open>handleStateAndPheromones\<close>, on the closest
  nest that its loop finds.
\<close>

definition nestReached :: "Agent \<Rightarrow> Nest list \<Rightarrow> bool" where
  "nestReached a nests =
     (case closestNest_loop a nests 0 (0, None) of
        (closest, distToNest) \<Rightarrow> atNest distToNest (nest_r (nests ! closest)))"

text \<open>The trail strength of an agent that reached no goal in this step.\<close>

definition fade :: "SimParams \<Rightarrow> Agent \<Rightarrow> Agent" where
  "fade p a =
     (if usePheromoneGradient p
      then a\<lparr> pheromoneStrength := max 0 (pheromoneStrength a - 5 / 1000) \<rparr>
      else a\<lparr> pheromoneStrength := 1 \<rparr>)"

text \<open>
  \<open>handleStateAndPheromones\<close> returns the grid, the agent and the nests as it leaves
  them. With no nest, \<open>closestNest\<close> is \<open>undefined\<close> and reading \<open>closestNest.r\<close>
  throws before anything is changed: the result is \<open>None\<close>.
\<close>

definition handleStateAndPheromones ::
  "SimParams \<Rightarrow> Nest list \<Rightarrow> FoodSource list \<Rightarrow> PheromoneGrid \<Rightarrow> Agent
     \<Rightarrow> (PheromoneGrid \<times> Agent \<times> Nest list) option" where
  "handleStateAndPheromones p nests foodSources grid a =
     (case closestNest_loop a nests 0 (0, None) of (closest, distToNest) \<Rightarrow>
      if nests = [] then None
      else
        (let nestRadius = nest_r (nests ! closest);
             food = onFood a foodSources
         in if state a = FORAGING then
              (let grid1 = deposit (singlePheromoneMode p) grid (agent_x a) (agent_y a) HOME
                             (pheromoneStrength a);
                   a1 = (if food
                         then a\<lparr> state := RETURNING, pheromoneStrength := 1,
                                  angle := angle a + pi, excitedLevel := 2 \<rparr>
                         else fade p a);
                   a2 = (if atNest distToNest nestRadius
                         then a1\<lparr> pheromoneStrength := 1 \<rparr> else a1)
               in Some (grid1, a2, nests))
            else
              (let grid1 = deposit (singlePheromoneMode p) grid (agent_x a) (agent_y a) FOOD
                             (pheromoneStrength a);
                   nests1 = (if atNest distToNest nestRadius \<and> state a = RETURNING
                                \<and> excitedLevel a = 2
                             then nests[closest := (nests ! closest)\<lparr> surgeTimer := 600 \<rparr>]
                             else nests);
                   a1 = (if atNest distToNest nestRadius
                         then a\<lparr> state := FORAGING, pheromoneStrength := 1,
                                  angle := angle a + pi, excitedLevel := 0 \<rparr>
                         else fade p a);
                   a2 = (if food then a1\<lparr> pheromoneStrength := 1 \<rparr> else a1)
               in Some (grid1, a2, nests1))))"

text \<open>The agent that a call of \<open>handleStateAndPheromones\<close> leaves.\<close>

definition agentAfter :: "(PheromoneGrid \<times> Agent \<times> Nest list) option \<Rightarrow> Agent option" where
  "agentAfter r = map_option (\<lambda>(g, a, ns). a) r"

section \<open>The update of an agent\<close>

text \<open>
  \<open>update\<close> calls \<open>Math.random()\<close> a number of times that depends on its branches. It
  is given the source \<open>rnd\<close> of its random values, and each part takes the number \<open>k\<close> of
  values drawn before it and returns the number drawn after it.
\<close>

definition decayExcitement ::
  "SimParams \<Rightarrow> (nat \<Rightarrow> real) \<Rightarrow> nat \<Rightarrow> Agent \<Rightarrow> Agent \<times> nat" where
  "decayExcitement p rnd k a =
     (if excitedLevel a > 0 \<and> excitedDecayRate p > 0 then
        (if rnd k < excitedDecayRate p then (a\<lparr> excitedLevel := 0 \<rparr>, k + 1) else (a, k + 1))
      else (a, k))"

text \<open>
  The loop over \<open>nearbyAgents\<close>. The test \<open>other !== this\<close> compares references:
  \<open>self\<close> is the index of the agent itself in the list, and \<open>i\<close> the index of \<open>other\<close>.
\<close>

fun propagate ::
  "SimParams \<Rightarrow> (nat \<Rightarrow> real) \<Rightarrow> nat \<Rightarrow> nat \<Rightarrow> nat \<Rightarrow> Agent list \<Rightarrow> Agent \<Rightarrow> Agent \<times> nat" where
  "propagate p rnd k self i [] a = (a, k)"
| "propagate p rnd k self i (other # rest) a =
     (if i \<noteq> self \<and> excitedLevel other = 2 then
        (if rnd k < propagationChance p then (a\<lparr> excitedLevel := 1 \<rparr>, k + 1)
         else propagate p rnd (k + 1) self (i + 1) rest a)
      else propagate p rnd k self (i + 1) rest a)"

definition senseAnyPheromone ::
  "SimParams \<Rightarrow> PheromoneGrid \<Rightarrow> (nat \<Rightarrow> real) \<Rightarrow> nat \<Rightarrow> Agent \<Rightarrow> Agent \<times> nat" where
  "senseAnyPheromone p grid rnd k a =
     (let sensorLeftAngle = angle a - sensorAngle p;
          sensorRightAngle = angle a + sensorAngle p;
          lx = agent_x a + cos sensorLeftAngle * sensorDist p;
          ly = agent_y a + sin sensorLeftAngle * sensorDist p;
          cx = agent_x a + cos (angle a) * sensorDist p;
          cy = agent_y a + sin (angle a) * sensorDist p;
          rx = agent_x a + cos sensorRightAngle * sensorDist p;
          ry = agent_y a + sin sensorRightAngle * sensorDist p;
          vLeft = getLevel (singlePheromoneMode p) grid lx ly HOME
                    + getLevel (singlePheromoneMode p) grid lx ly FOOD;
          vCenter = getLevel (singlePheromoneMode p) grid cx cy HOME
                    + getLevel (singlePheromoneMode p) grid cx cy FOOD;
          vRight = getLevel (singlePheromoneMode p) grid rx ry HOME
                    + getLevel (singlePheromoneMode p) grid rx ry FOOD;
          turn = turnSpeed p * 2;
          turned =
            (if vCenter > vLeft \<and> vCenter > vRight then (a, k)
             else if vCenter < vLeft \<and> vCenter < vRight then
               (a\<lparr> angle := angle a + (rnd k - 1 / 2) * 2 * turn \<rparr>, k + 1)
             else if vLeft > vRight then (a\<lparr> angle := angle a - turn \<rparr>, k)
             else if vRight > vLeft then (a\<lparr> angle := angle a + turn \<rparr>, k)
             else (a, k));
          a1 = fst turned;
          k1 = snd turned
      in if vCenter + vLeft + vRight < 1 / 100 then
           (if rnd k1 < 5 / 100
            then (a1\<lparr> angle := angle a1 + (rnd (k1 + 1) - 1 / 2) * pi \<rparr>, k1 + 2)
            else (a1, k1 + 1))
         else (a1, k1))"

definition sense ::
  "SimParams \<Rightarrow> PheromoneGrid \<Rightarrow> (nat \<Rightarrow> real) \<Rightarrow> nat \<Rightarrow> Agent \<Rightarrow> Agent \<times> nat" where
  "sense p grid rnd k a =
     (if givingUp a then senseAnyPheromone p grid rnd k a
      else
        (let targetType = (if state a = FORAGING then FOOD else HOME);
             sensorLeftAngle = angle a - sensorAngle p;
             sensorRightAngle = angle a + sensorAngle p;
             lx = agent_x a + cos sensorLeftAngle * sensorDist p;
             ly = agent_y a + sin sensorLeftAngle * sensorDist p;
             cx = agent_x a + cos (angle a) * sensorDist p;
             cy = agent_y a + sin (angle a) * sensorDist p;
             rx = agent_x a + cos sensorRightAngle * sensorDist p;
             ry = agent_y a + sin sensorRightAngle * sensorDist p;
             vLeft = getLevel (singlePheromoneMode p) grid lx ly targetType;
             vCenter = getLevel (singlePheromoneMode p) grid cx cy targetType;
             vRight = getLevel (singlePheromoneMode p) grid rx ry targetType;
             turn = (if excitedLevel a > 0 then turnSpeed p * excitedTurnSpeedMult p
                     else turnSpeed p);
             turned =
               (if vCenter > vLeft \<and> vCenter > vRight then (a, k)
                else if vCenter < vLeft \<and> vCenter < vRight then
                  (a\<lparr> angle := angle a + (rnd k - 1 / 2) * 2 * turn \<rparr>, k + 1)
                else if vLeft > vRight then (a\<lparr> angle := angle a - turn \<rparr>, k)
                else if vRight > vLeft then (a\<lparr> angle := angle a + turn \<rparr>, k)
                else (a, k));
             a1 = fst turned;
             k1 = snd turned
         in if uTurnChance p > 0 then
              (let doUTurn0 = (rnd k1 < uTurnChance p);
                   forwardPheromone = vCenter + max vLeft vRight;
                   doUTurn = (if forwardPheromone < 5 / 100
                              then (if rnd (k1 + 1) < uTurnChance p * 10 then True else doUTurn0)
                              else doUTurn0);
                   k2 = (if forwardPheromone < 5 / 100 then k1 + 2 else k1 + 1)
               in (if doUTurn then a1\<lparr> angle := angle a1 + pi \<rparr> else a1, k2))
            else (a1, k1)))"

text \<open>The give-up evaluation of \<open>update\<close>.\<close>

definition giveUpCheck :: "SimParams \<Rightarrow> PheromoneGrid \<Rightarrow> Agent \<Rightarrow> Agent" where
  "giveUpCheck p grid a =
     (if enableGiveUp p \<and> state a = FORAGING \<and> excitedLevel a = 0 then
        (let currentHome = getLevel (singlePheromoneMode p) grid (agent_x a) (agent_y a) HOME;
             currentFood = getLevel (singlePheromoneMode p) grid (agent_x a) (agent_y a) FOOD
         in if currentHome > 5 / 100 \<or> currentFood > 5 / 100
            then a\<lparr> searchTime := 0, givingUp := False \<rparr>
            else
              (let a1 = a\<lparr> searchTime := searchTime a + 1 \<rparr>
               in if searchTime a1 > 900 then a1\<lparr> givingUp := True \<rparr> else a1))
      else a)"

text \<open>
  \<open>update\<close>, for the agent \<open>a0\<close> at index \<open>self\<close> of \<open>nearbyAgents\<close>. The last random
  value is drawn by \<open>handleObstacles\<close>, and only when it rolls the move back.
\<close>

definition update ::
  "SimParams \<Rightarrow> Obstacle list \<Rightarrow> Nest list \<Rightarrow> FoodSource list \<Rightarrow> (nat \<Rightarrow> real) \<Rightarrow> PheromoneGrid
     \<Rightarrow> Agent list \<Rightarrow> nat \<Rightarrow> Agent \<Rightarrow> (PheromoneGrid \<times> Agent \<times> Nest list) option" where
  "update p obstacles nests foodSources rnd grid nearbyAgents self a0 =
     (let decayed = decayExcitement p rnd 0 a0;
          excited = (if propagationChance p > 0 \<and> excitedLevel (fst decayed) = 0
                     then propagate p rnd (snd decayed) self 0 nearbyAgents (fst decayed)
                     else decayed);
          sensed = sense p grid rnd (snd excited) (fst excited);
          a1 = giveUpCheck p grid (fst sensed);
          a2 = update_move p obstacles grid (rnd (snd sensed)) (rnd (snd sensed + 1)) a1
      in handleStateAndPheromones p nests foodSources grid a2)"

section \<open>Spawning\<close>

text \<open>
  The state that the spawn block of \<open>loop\<close> works on. \<open>initAgents\<close> empties both.
\<close>

record Population =
  agents :: "Agent list"
  spawnAccumulator :: real

definition initAgents :: Population where
  "initAgents = \<lparr> agents = [], spawnAccumulator = 0 \<rparr>"

text \<open>
  The \<open>for\<close> loop of the spawn block, with \<open>n\<close> iterations left. \<open>rnd k\<close> is the value
  of the \<open>k\<close>-th call of \<open>Math.random()\<close> in the block. An index outside \<open>nests\<close> gives
  \<open>undefined\<close>, and reading a field of it throws: the result is \<open>None\<close>.
\<close>

fun spawn_loop ::
  "SimParams \<Rightarrow> Nest list \<Rightarrow> (nat \<Rightarrow> real) \<Rightarrow> nat \<Rightarrow> nat \<Rightarrow> Agent list \<Rightarrow> Agent list option" where
  "spawn_loop p nests rnd 0 k ags = Some ags"
| "spawn_loop p nests rnd (Suc n) k ags =
     (if int (length ags) \<ge> agentCount p then Some ags
      else
        (let j = \<lfloor>rnd k * real (length nests)\<rfloor> in
         if j < 0 \<or> j \<ge> int (length nests) then None
         else
           (let nest = nests ! nat j in
            if enableSortieRegulation p then
              (if surgeTimer nest > 0 then
                 spawn_loop p nests rnd n (k + 2)
                   (ags @ [newAgent (nest_x nest) (nest_y nest) (rnd (k + 1))])
               else if rnd (k + 1) > 1 / 100 then
                 spawn_loop p nests rnd n (k + 2) ags
               else
                 spawn_loop p nests rnd n (k + 3)
                   (ags @ [newAgent (nest_x nest) (nest_y nest) (rnd (k + 2))]))
            else
              spawn_loop p nests rnd n (k + 2)
                (ags @ [newAgent (nest_x nest) (nest_y nest) (rnd (k + 1))]))))"

definition spawnStep ::
  "SimParams \<Rightarrow> Nest list \<Rightarrow> (nat \<Rightarrow> real) \<Rightarrow> Population \<Rightarrow> Population option" where
  "spawnStep p nests rnd st =
     (if int (length (agents st)) < agentCount p then
        (let acc = dround (spawnAccumulator st + spawnRate p);
             spawnCount = \<lfloor>acc\<rfloor>;
             acc1 = dround (acc - real_of_int spawnCount)
         in case spawn_loop p nests rnd (nat spawnCount) 0 (agents st) of
              None \<Rightarrow> None
            | Some ags \<Rightarrow> Some \<lparr> agents = ags, spawnAccumulator = acc1 \<rparr>)
      else Some st)"

text \<open>
  The spawn blocks of consecutive ticks. Each tick comes with the nests as they stand
  at that tick and with the values \<open>Math.random()\<close> returns during its spawn block; the
  rest of \<open>loop\<close> changes neither \<open>agents.length\<close> nor \<open>spawnAccumulator\<close>.
\<close>

fun spawnTicks ::
  "SimParams \<Rightarrow> (Nest list \<times> (nat \<Rightarrow> real)) list \<Rightarrow> Population \<Rightarrow> Population option" where
  "spawnTicks p [] st = Some st"
| "spawnTicks p ((nests, rnd) # ticks) st =
     (case spawnStep p nests rnd st of
        None \<Rightarrow> None
      | Some st1 \<Rightarrow> spawnTicks p ticks st1)"

text \<open>A source of random numbers that returns the same value at every call.\<close>

definition rnd_const :: "real \<Rightarrow> nat \<Rightarrow> real" where
  "rnd_const c k = c"

text \<open>\<open>Math.random()\<close> returns values in \<open>[0, 1)\<close>.\<close>

definition unit_rnd :: "(nat \<Rightarrow> real) \<Rightarrow> bool" where
  "unit_rnd rnd = (\<forall>k. 0 \<le> rnd k \<and> rnd k < 1)"

text \<open>
  A tick with at least one nest and a well-formed source of random numbers, in which no
  spawn is throttled: sortie regulation is off, or the surge timer of every nest runs.
\<close>

fun tick_ok :: "SimParams \<Rightarrow> Nest list \<times> (nat \<Rightarrow> real) \<Rightarrow> bool" where
  "tick_ok p (nests, rnd) =
     (nests \<noteq> [] \<and> unit_rnd rnd \<and>
      (\<not> enableSortieRegulation p \<or> list_all (\<lambda>nest. surgeTimer nest > 0) nests))"

text \<open>
  The state of the spawn block after \<open>k\<close> ticks when no spawn is dropped: the
  population is the whole part of \<open>k * spawnRate\<close>, capped by \<open>agentCount\<close>, and
  the accumulator is the fractional part as long as the cap is not reached.
\<close>

definition spawn_inv :: "SimParams \<Rightarrow> nat \<Rightarrow> Population \<Rightarrow> bool" where
  "spawn_inv p k st =
     (int (length (agents st)) = max 0 (min (agentCount p) \<lfloor>real k * spawnRate p\<rfloor>) \<and>
      (\<lfloor>real k * spawnRate p\<rfloor> < agentCount p \<longrightarrow>
         spawnAccumulator st = frac (real k * spawnRate p)))"

section \<open>Lemmas on rounding\<close>

lemma roundEven_error: "\<bar>of_int (roundEven t) - t\<bar> \<le> 1 / 2"
  unfolding roundEven_def Let_def by (auto; linarith)

lemma roundEven_of_int [simp]: "roundEven (of_int n) = n"
  by (simp add: roundEven_def)

lemma roundEven_le: "t \<le> of_int n \<Longrightarrow> roundEven t \<le> n"
proof -
  assume a: "t \<le> of_int n"
  have f: "\<lfloor>t\<rfloor> \<le> n" using a by (simp add: floor_le_iff) linarith?
  show ?thesis
  proof (cases "\<lfloor>t\<rfloor> = n")
    case True
    then have "t = of_int n" using a by linarith
    then show ?thesis by simp
  next
    case False
    then have "\<lfloor>t\<rfloor> + 1 \<le> n" using f by linarith
    then show ?thesis unfolding roundEven_def Let_def by auto
  qed
qed

lemma roundEven_ge: "of_int n \<le> t \<Longrightarrow> n \<le> roundEven t"
proof -
  assume a: "of_int n \<le> t"
  then have "n \<le> \<lfloor>t\<rfloor>" by (simp add: le_floor_iff)
  then show ?thesis unfolding roundEven_def Let_def by auto
qed

lemma two_powi_powr: "(2::real) powi e = 2 powr (of_int e)"
  by (simp add: powr_real_of_int')

lemma two_powi_le_iff [simp]: "(2::real) powi a \<le> 2 powi b \<longleftrightarrow> a \<le> b"
  by (simp add: two_powi_powr)

lemma two_powi_less_iff [simp]: "(2::real) powi a < 2 powi b \<longleftrightarrow> a < b"
  by (simp add: two_powi_powr)

lemma binade_bounds:
  assumes "x \<noteq> 0"
  shows "2 powi (binade x) \<le> \<bar>x\<bar>" and "\<bar>x\<bar> < 2 powi (binade x + 1)"
proof -
  have pos: "0 < \<bar>x\<bar>" using assms by simp
  have "of_int (binade x) \<le> log 2 \<bar>x\<bar>" by (simp add: binade_def)
  then show "2 powi (binade x) \<le> \<bar>x\<bar>"
    unfolding two_powi_powr using pos by (simp add: le_log_iff)
  have "log 2 \<bar>x\<bar> < of_int (binade x + 1)" by (simp add: binade_def) linarith?
  then show "\<bar>x\<bar> < 2 powi (binade x + 1)"
    unfolding two_powi_powr using pos by (simp add: log_less_iff)
qed

lemma binade_eq:
  assumes "2 powi e \<le> \<bar>x\<bar>" and "\<bar>x\<bar> < 2 powi (e + 1)"
  shows "binade x = e"
proof -
  have pos: "0 < \<bar>x\<bar>"
    using assms(1) by (smt (verit) zero_less_power_int)
  have a: "of_int e \<le> log 2 \<bar>x\<bar>"
    using assms(1) pos unfolding two_powi_powr by (simp add: le_log_iff)
  have b: "log 2 \<bar>x\<bar> < of_int e + 1"
    using assms(2) pos unfolding two_powi_powr by (simp add: log_less_iff)
  show ?thesis unfolding binade_def using a b by (rule floor_unique)
qed

lemma binade_le:
  assumes "x \<noteq> 0" and "\<bar>x\<bar> \<le> 2 powi k"
  shows "binade x \<le> k"
proof -
  have "(2::real) powi (binade x) \<le> 2 powi k"
    using binade_bounds(1)[OF assms(1)] assms(2) by linarith
  then show ?thesis by simp
qed

lemma binade_less:
  assumes "x \<noteq> 0" and "\<bar>x\<bar> < 2 powi k"
  shows "binade x < k"
proof -
  have "(2::real) powi (binade x) < 2 powi k"
    using binade_bounds(1)[OF assms(1)] assms(2) by linarith
  then show ?thesis by simp
qed

lemma binade_ge:
  assumes "2 powi k \<le> \<bar>x\<bar>"
  shows "k \<le> binade x"
proof -
  have nz: "x \<noteq> 0" using assms by (smt (verit) zero_less_power_int)
  have "(2::real) powi k < 2 powi (binade x + 1)"
    using binade_bounds(2)[OF nz] assms by linarith
  then have "k < binade x + 1" by simp
  then show ?thesis by simp
qed

lemma two_powi_split: "(2::real) powi (a + b) = 2 powi a * 2 powi b"
  by (simp add: power_int_add)

lemma two_powi_div: "(2::real) powi a / 2 powi b = 2 powi (a - b)"
  by (simp add: power_int_diff)

lemma two_powi_nonneg_int: "0 \<le> k \<Longrightarrow> (2::real) powi k = of_int (2 ^ nat k)"
  by (simp add: power_int_nonneg_exp)

lemma roundTo_unfold:
  assumes "x \<noteq> 0"
  shows "roundTo p emin x =
           2 powi (max (binade x) emin - int p + 1) *
             of_int (roundEven (x / 2 powi (max (binade x) emin - int p + 1)))"
  using assms by (simp add: roundTo_def Let_def)

lemma roundTo_eval:
  assumes "2 powi e \<le> \<bar>x\<bar>" and "\<bar>x\<bar> < 2 powi (e + 1)" and "emin \<le> e"
  shows "roundTo p emin x = 2 powi (e - int p + 1) * of_int (roundEven (x / 2 powi (e - int p + 1)))"
proof -
  have nz: "x \<noteq> 0" using assms(1) by (smt (verit) zero_less_power_int)
  have "max (binade x) emin = e"
    using binade_eq[OF assms(1,2)] assms(3) by simp
  then show ?thesis using roundTo_unfold[OF nz, of p emin] by simp
qed

lemma roundTo_zero [simp]: "roundTo p emin 0 = 0"
  by (simp add: roundTo_def)

lemma round_zero [simp]: "fround 0 = 0" "dround 0 = 0"
  by (simp_all add: fround_def dround_def)

lemma roundTo_nonneg: "0 \<le> x \<Longrightarrow> 0 \<le> roundTo p emin x"
proof (cases "x = 0")
  case True
  then show ?thesis by simp
next
  case False
  assume "0 \<le> x"
  then have "(of_int 0 :: real) \<le> x / 2 powi (max (binade x) emin - int p + 1)" by simp
  from roundEven_ge[OF this] show ?thesis
    unfolding roundTo_unfold[OF False] by simp
qed

lemma roundTo_nonpos: "x \<le> 0 \<Longrightarrow> roundTo p emin x \<le> 0"
proof (cases "x = 0")
  case True
  then show ?thesis by simp
next
  case False
  assume "x \<le> 0"
  then have "x / 2 powi (max (binade x) emin - int p + 1) \<le> (of_int 0 :: real)"
    by (simp add: divide_nonpos_pos)
  from roundEven_le[OF this] show ?thesis
    unfolding roundTo_unfold[OF False] by (simp add: mult_le_0_iff)
qed

text \<open>A value at most a power of two is rounded to at most that power.\<close>

lemma roundTo_le_pow2:
  assumes "x \<le> 2 powi k" and "emin \<le> k" and "0 < p"
  shows "roundTo p emin x \<le> 2 powi k"
proof (cases "x \<le> 0")
  case True
  have "roundTo p emin x \<le> 0" using True by (rule roundTo_nonpos)
  also have "(0::real) \<le> 2 powi k" by simp
  finally show ?thesis .
next
  case False
  then have nz: "x \<noteq> 0" and pos: "0 < x" by simp_all
  define e where "e = max (binade x) emin"
  define u where "u = (2::real) powi (e - int p + 1)"
  have upos: "0 < u" by (simp add: u_def)
  have "binade x \<le> k" using binade_le[OF nz] assms(1) pos by simp
  then have ek: "e \<le> k" using assms(2) by (simp add: e_def)
  then have ex: "0 \<le> k - (e - int p + 1)" using assms(3) by simp
  have q: "(2::real) powi k / u = of_int (2 ^ nat (k - (e - int p + 1)))"
    unfolding u_def two_powi_div using two_powi_nonneg_int[OF ex] .
  have "x / u \<le> 2 powi k / u"
    using assms(1) upos by (simp add: divide_right_mono)
  then have "x / u \<le> of_int (2 ^ nat (k - (e - int p + 1)))" unfolding q .
  from roundEven_le[OF this]
  have "real_of_int (roundEven (x / u)) \<le> of_int (2 ^ nat (k - (e - int p + 1)))"
    by (simp only: of_int_le_iff)
  then have "u * real_of_int (roundEven (x / u)) \<le> u * (2 powi k / u)"
    unfolding q using upos by (simp add: mult_left_mono)
  then show ?thesis
    unfolding roundTo_unfold[OF nz] e_def[symmetric] u_def[symmetric] using upos by simp
qed

text \<open>A value at least a power of two in the normal range is rounded to at least that power.\<close>

lemma roundTo_ge_pow2:
  assumes "2 powi k \<le> x" and "emin \<le> k" and "0 < p"
  shows "2 powi k \<le> roundTo p emin x"
proof -
  have pos: "0 < x" using assms(1) by (smt (verit) zero_less_power_int)
  then have nz: "x \<noteq> 0" by simp
  have kb: "k \<le> binade x" using binade_ge[of k x] assms(1) pos by simp
  define e where "e = binade x"
  have me: "max (binade x) emin = e" using kb assms(2) by (simp add: e_def)
  define u where "u = (2::real) powi (e - int p + 1)"
  have upos: "0 < u" by (simp add: u_def)
  have ex: "0 \<le> e - (e - int p + 1)" using assms(3) by simp
  have q: "(2::real) powi e / u = of_int (2 ^ nat (e - (e - int p + 1)))"
    unfolding u_def two_powi_div using two_powi_nonneg_int[OF ex] .
  have "2 powi e \<le> x" using binade_bounds(1)[OF nz] pos by (simp add: e_def)
  then have "2 powi e / u \<le> x / u" using upos by (simp add: divide_right_mono)
  then have "of_int (2 ^ nat (e - (e - int p + 1))) \<le> x / u" unfolding q .
  from roundEven_ge[OF this]
  have "of_int (2 ^ nat (e - (e - int p + 1))) \<le> real_of_int (roundEven (x / u))"
    by (simp only: of_int_le_iff)
  then have "u * (2 powi e / u) \<le> u * real_of_int (roundEven (x / u))"
    unfolding q using upos by (simp add: mult_left_mono)
  then have "2 powi e \<le> roundTo p emin x"
    unfolding roundTo_unfold[OF nz] me u_def[symmetric] using upos by simp
  moreover have "(2::real) powi k \<le> 2 powi e" using kb by (simp add: e_def)
  ultimately show ?thesis by linarith
qed

text \<open>The relative error of rounding in the normal range.\<close>

lemma roundTo_rel_error:
  assumes "2 powi emin \<le> \<bar>x\<bar>"
  shows "\<bar>roundTo p emin x - x\<bar> \<le> \<bar>x\<bar> / 2 ^ p"
proof -
  have nz: "x \<noteq> 0" using assms by (smt (verit) zero_less_power_int)
  define e where "e = binade x"
  have me: "max (binade x) emin = e" using binade_ge[OF assms] by (simp add: e_def)
  define u where "u = (2::real) powi (e - int p + 1)"
  have upos: "0 < u" by (simp add: u_def)
  have "roundTo p emin x - x = u * (of_int (roundEven (x / u)) - x / u)"
    unfolding roundTo_unfold[OF nz] me u_def[symmetric] using upos by (simp add: algebra_simps)
  then have "\<bar>roundTo p emin x - x\<bar> = u * \<bar>of_int (roundEven (x / u)) - x / u\<bar>"
    using upos by (simp add: abs_mult)
  also have "\<dots> \<le> u * (1 / 2)"
    using roundEven_error[of "x / u"] upos by (intro mult_left_mono) simp_all
  also have "u * (1 / 2) = 2 powi e / 2 ^ p"
    unfolding u_def by (simp add: power_int_add power_int_diff)
  also have "\<dots> \<le> \<bar>x\<bar> / 2 ^ p"
    using binade_bounds(1)[OF nz] by (simp add: e_def divide_right_mono)
  finally show ?thesis .
qed

text \<open>Values with at most \<open>p\<close> significant bits are not changed.\<close>

lemma roundTo_exact:
  assumes "x = of_int n * 2 powi k" and "\<bar>n\<bar> < 2 ^ p" and "emin - int p + 1 \<le> k"
  shows "roundTo p emin x = x"
proof (cases "x = 0")
  case True
  then show ?thesis by simp
next
  case False
  define e where "e = max (binade x) emin"
  define u where "u = (2::real) powi (e - int p + 1)"
  have upos: "0 < u" by (simp add: u_def)
  have "\<bar>x\<bar> = of_int \<bar>n\<bar> * 2 powi k" unfolding assms(1) by (simp add: abs_mult)
  also have "\<dots> < of_int (2 ^ p) * 2 powi k"
    using assms(2) by (intro mult_strict_right_mono) (simp_all only: of_int_less_iff zero_less_power_int zero_less_numeral)
  also have "\<dots> = 2 powi (int p + k)" by (simp add: power_int_add)
  finally have "binade x < int p + k" using binade_less[OF False] by simp
  then have "e \<le> int p + k - 1" using assms(3) by (simp add: e_def)
  then have ex: "0 \<le> k - (e - int p + 1)" by simp
  have "x / u = of_int n * (2 powi k / u)" unfolding assms(1) by simp
  also have "2 powi k / u = of_int (2 ^ nat (k - (e - int p + 1)))"
    unfolding u_def two_powi_div using two_powi_nonneg_int[OF ex] .
  finally have "x / u = of_int (n * 2 ^ nat (k - (e - int p + 1)))" by simp
  then have "of_int (roundEven (x / u)) = x / u" by (simp only: roundEven_of_int)
  then show ?thesis
    unfolding roundTo_unfold[OF False] e_def[symmetric] u_def[symmetric] using upos by simp
qed

lemma dround_3_10: "dround (3 / 10) = 5404319552844595 / 18014398509481984"
  unfolding dround_def
  by (subst roundTo_eval[where e = "- 2"]) (simp_all add: roundEven_def)

lemma fround_dround_3_10: "fround (5404319552844595 / 18014398509481984) = 5033165 / 16777216"
  unfolding fround_def
  by (subst roundTo_eval[where e = "- 2"]) (simp_all add: roundEven_def)

lemma dround_thousandth: "dround (1 / 1000) = 1152921504606847 / 1152921504606846976"
  unfolding dround_def
  by (subst roundTo_eval[where e = "- 10"]) (simp_all add: roundEven_def)

lemma round_half: "fround (1 / 2) = 1 / 2" "dround (1 / 2) = 1 / 2"
  unfolding fround_def dround_def
  by (rule roundTo_exact[where n = 1 and k = "- 1"]; simp)+

lemma round_one: "fround 1 = 1" "dround 1 = 1"
  unfolding fround_def dround_def
  by (rule roundTo_exact[where n = 1 and k = 0]; simp)+

section \<open>Lemmas on the pheromone field\<close>

subsection \<open>The decay of one cell\<close>

lemma snapThreshold_value: "snapThreshold = 1152921504606847 / 1152921504606846976"
  unfolding snapThreshold_def by (rule dround_thousandth)

lemma snapThreshold_bounds: "1 / 1000 \<le> snapThreshold" "2 powi (- 126) < snapThreshold" "0 < snapThreshold"
  unfolding snapThreshold_value by (simp_all add: power_int_minus)

lemma decay_cell_zero_arg [simp]: "decay_cell r 0 = 0"
  by (simp add: decay_cell_def fround_def dround_def)

lemma decay_cell_snapped: "decay_cell r v = 0 \<or> 1 / 1000 \<le> decay_cell r v"
  using snapThreshold_bounds(1) by (auto simp: decay_cell_def Let_def)

lemma rel_error_bounds:
  fixes w x c :: real
  assumes "\<bar>w - x\<bar> \<le> x / c"
  shows "w \<le> (1 + 1 / c) * x" and "(1 - 1 / c) * x \<le> w"
proof -
  have a: "w - x \<le> x / c" and b: "x - w \<le> x / c"
    using assms by (simp_all add: abs_le_iff)
  have e: "(1 + 1 / c) * x = x + x / c" "(1 - 1 / c) * x = x - x / c"
    by (simp_all add: algebra_simps)
  show "w \<le> (1 + 1 / c) * x" unfolding e using a by linarith
  show "(1 - 1 / c) * x \<le> w" unfolding e using b by linarith
qed

lemma shrink_le:
  fixes a :: real
  assumes "0 \<le> a"
  shows "(1 - 1 / 2 ^ 23) * a \<le> a"
proof -
  have "(1 - 1 / 2 ^ 23) * a \<le> 1 * a"
    using assms by (intro mult_right_mono) simp_all
  then show ?thesis by simp
qed

text \<open>A product that is stored and not snapped lies in the normal range of both formats.\<close>

lemma stored_product_error:
  assumes "0 \<le> y" and "2 powi (- 126) \<le> y"
  shows "(1 - 1 / 2 ^ 23) * y \<le> fround (dround y)" and "fround (dround y) \<le> (1 + 1 / 2 ^ 23) * y"
proof -
  define z where "z = dround y"
  have "(2::real) powi (- 1022) \<le> 2 powi (- 126)" by simp
  then have "2 powi (- 1022) \<le> \<bar>y\<bar>" using assms by linarith
  from roundTo_rel_error[OF this, of 53]
  have d: "\<bar>z - y\<bar> \<le> y / 2 ^ 53" using assms(1) by (simp add: z_def dround_def)
  have zl: "2 powi (- 126) \<le> z"
    unfolding z_def dround_def using assms(2) by (intro roundTo_ge_pow2) simp_all
  then have zpos: "0 \<le> z" by (smt (verit) zero_less_power_int)
  have "2 powi (- 126) \<le> \<bar>z\<bar>" using zl zpos by simp
  from roundTo_rel_error[OF this, of 24]
  have f: "\<bar>fround z - z\<bar> \<le> z / 2 ^ 24" using zpos by (simp add: fround_def)
  have z1: "z \<le> (1 + 1 / 2 ^ 53) * y" and z2: "(1 - 1 / 2 ^ 53) * y \<le> z"
    using rel_error_bounds[OF d] by simp_all
  have w1: "fround z \<le> (1 + 1 / 2 ^ 24) * z" and w2: "(1 - 1 / 2 ^ 24) * z \<le> fround z"
    using rel_error_bounds[OF f] by simp_all
  have "(1 + 1 / 2 ^ 24) * z \<le> (1 + 1 / 2 ^ 24) * ((1 + 1 / 2 ^ 53) * y)"
    using z1 by (intro mult_left_mono) simp_all
  also have "\<dots> = ((1 + 1 / 2 ^ 24) * (1 + 1 / 2 ^ 53)) * y" by simp
  also have "\<dots> \<le> (1 + 1 / 2 ^ 23) * y"
    using assms(1) by (intro mult_right_mono) simp_all
  finally show "fround (dround y) \<le> (1 + 1 / 2 ^ 23) * y"
    using w1 by (simp add: z_def)
  have "(1 - 1 / 2 ^ 23) * y \<le> ((1 - 1 / 2 ^ 24) * (1 - 1 / 2 ^ 53)) * y"
    using assms(1) by (intro mult_right_mono) simp_all
  also have "\<dots> = (1 - 1 / 2 ^ 24) * ((1 - 1 / 2 ^ 53) * y)" by simp
  also have "\<dots> \<le> (1 - 1 / 2 ^ 24) * z"
    using z2 by (intro mult_left_mono) simp_all
  finally show "(1 - 1 / 2 ^ 23) * y \<le> fround (dround y)"
    using w2 by (simp add: z_def)
qed

lemma tiny_product_snapped:
  assumes "y < 2 powi (- 126)"
  shows "fround (dround y) < snapThreshold"
proof -
  have "dround y \<le> 2 powi (- 126)"
    unfolding dround_def using assms by (intro roundTo_le_pow2) simp_all
  then have "fround (dround y) \<le> 2 powi (- 126)"
    unfolding fround_def by (intro roundTo_le_pow2) simp_all
  then show ?thesis using snapThreshold_bounds(2) by linarith
qed

lemma decay_cell_bounds:
  assumes "0 \<le> u" and "0 < r" and "decay_cell r u \<noteq> 0"
  shows "(1 - 1 / 2 ^ 23) * (u * r) \<le> decay_cell r u" and "decay_cell r u \<le> (1 + 1 / 2 ^ 23) * (u * r)"
proof -
  have ns: "\<not> fround (dround (u * r)) < snapThreshold" and eq: "decay_cell r u = fround (dround (u * r))"
    using assms(3) by (auto simp: decay_cell_def Let_def split: if_splits)
  have y: "0 \<le> u * r" using assms by simp
  have n: "2 powi (- 126) \<le> u * r"
    using tiny_product_snapped[of "u * r"] ns by linarith
  show "(1 - 1 / 2 ^ 23) * (u * r) \<le> decay_cell r u"
    unfolding eq by (rule stored_product_error(1)[OF y n])
  show "decay_cell r u \<le> (1 + 1 / 2 ^ 23) * (u * r)"
    unfolding eq by (rule stored_product_error(2)[OF y n])
qed

lemma decay_cell_kept:
  assumes "0 \<le> u" and "0 < r" and "snapThreshold \<le> (1 - 1 / 2 ^ 23) * (u * r)"
  shows "decay_cell r u \<noteq> 0"
proof -
  have y: "0 \<le> u * r" using assms by simp
  have "snapThreshold \<le> u * r" using shrink_le[OF y] assms(3) by linarith
  then have n: "2 powi (- 126) \<le> u * r" using snapThreshold_bounds(2) by linarith
  have "snapThreshold \<le> fround (dround (u * r))"
    using stored_product_error(1)[OF y n] assms(3) by linarith
  then show ?thesis using snapThreshold_bounds(3) by (simp add: decay_cell_def Let_def)
qed

text \<open>Repeated decay of one cell.\<close>

lemma decay_funpow_zero: "(decay_cell r ^^ m) 0 = 0"
  by (induction m) simp_all

lemma decay_funpow_stays_zero: "(decay_cell r ^^ n) v = 0 \<Longrightarrow> (decay_cell r ^^ (n + m)) v = 0"
  by (simp add: add.commute[of n m] funpow_add decay_funpow_zero)

lemma decay_funpow_snapped: "0 < n \<Longrightarrow> (decay_cell r ^^ n) v = 0 \<or> 1 / 1000 \<le> (decay_cell r ^^ n) v"
proof (cases n)
  case 0
  assume "0 < n"
  then show ?thesis using 0 by simp
next
  case (Suc k)
  show ?thesis
    unfolding Suc using decay_cell_snapped[of r "(decay_cell r ^^ k) v"] by simp
qed

lemma decay_funpow_bounds:
  assumes "0 \<le> v" and "0 < r"
  shows "(decay_cell r ^^ n) v \<noteq> 0 \<Longrightarrow>
         (1 - 1 / 2 ^ 23) ^ n * (v * r ^ n) \<le> (decay_cell r ^^ n) v \<and>
         (decay_cell r ^^ n) v \<le> (1 + 1 / 2 ^ 23) ^ n * (v * r ^ n)"
proof (induction n)
  case 0
  show ?case by simp
next
  case (Suc n)
  define u where "u = (decay_cell r ^^ n) v"
  have nz: "decay_cell r u \<noteq> 0" using Suc.prems by (simp add: u_def)
  then have unz: "u \<noteq> 0" by auto
  from Suc.IH[OF unz[unfolded u_def]]
  have lo: "(1 - 1 / 2 ^ 23) ^ n * (v * r ^ n) \<le> u" and hi: "u \<le> (1 + 1 / 2 ^ 23) ^ n * (v * r ^ n)"
    by (simp_all add: u_def)
  have "0 \<le> (1 - 1 / 2 ^ 23) ^ n * (v * r ^ n)"
    using assms by (intro mult_nonneg_nonneg) simp_all
  then have u0: "0 \<le> u" using lo by linarith
  note b = decay_cell_bounds[OF u0 assms(2) nz]
  have "(1 - 1 / 2 ^ 23) * ((1 - 1 / 2 ^ 23) ^ n * (v * r ^ n) * r) \<le> (1 - 1 / 2 ^ 23) * (u * r)"
    using lo assms(2) by (intro mult_left_mono mult_right_mono) simp_all
  then have l: "(1 - 1 / 2 ^ 23) ^ Suc n * (v * r ^ Suc n) \<le> decay_cell r u"
    using b(1) by (simp add: mult_ac)
  have "(1 + 1 / 2 ^ 23) * (u * r) \<le> (1 + 1 / 2 ^ 23) * ((1 + 1 / 2 ^ 23) ^ n * (v * r ^ n) * r)"
    using hi assms(2) by (intro mult_left_mono mult_right_mono) simp_all
  then have h: "decay_cell r u \<le> (1 + 1 / 2 ^ 23) ^ Suc n * (v * r ^ Suc n)"
    using b(2) by (simp add: mult_ac)
  show ?case using l h by (simp add: u_def)
qed

lemma decay_funpow_kept:
  assumes "0 \<le> v" and "0 < r" and "r \<le> 1"
  shows "snapThreshold \<le> (1 - 1 / 2 ^ 23) ^ n * (v * r ^ n) \<Longrightarrow> (decay_cell r ^^ n) v \<noteq> 0"
proof (induction n)
  case 0
  then show ?case using snapThreshold_bounds(3) by simp
next
  case (Suc n)
  define u where "u = (decay_cell r ^^ n) v"
  define q where "q = (1 - 1 / 2 ^ 23) ^ n * (v * r ^ n)"
  have q0: "0 \<le> q" unfolding q_def using assms by (intro mult_nonneg_nonneg) simp_all
  have step: "(1 - 1 / 2 ^ 23) ^ Suc n * (v * r ^ Suc n) = (1 - 1 / 2 ^ 23) * (q * r)"
    by (simp add: q_def mult_ac)
  have "q * r \<le> q * 1"
    using q0 assms by (intro mult_left_mono) simp_all
  moreover have "0 \<le> q * r" using q0 assms by simp
  ultimately have "(1 - 1 / 2 ^ 23) * (q * r) \<le> q"
    using shrink_le[of "q * r"] by simp
  then have "snapThreshold \<le> q" using Suc.prems unfolding step by linarith
  from Suc.IH[OF this[unfolded q_def]] have unz: "u \<noteq> 0" by (simp add: u_def)
  from decay_funpow_bounds[OF assms(1,2) unz[unfolded u_def]] have lo: "q \<le> u"
    by (simp add: q_def u_def)
  then have u0: "0 \<le> u" using q0 by linarith
  have "(1 - 1 / 2 ^ 23) * (q * r) \<le> (1 - 1 / 2 ^ 23) * (u * r)"
    using lo assms(2) by (intro mult_left_mono mult_right_mono) simp_all
  then have "snapThreshold \<le> (1 - 1 / 2 ^ 23) * (u * r)"
    using Suc.prems unfolding step by linarith
  from decay_cell_kept[OF u0 assms(2) this] show ?case by (simp add: u_def)
qed

subsection \<open>The decay loop\<close>

lemma evaporate_loop_fields:
  "width (evaporate_loop r i g) = width g \<and> height (evaporate_loop r i g) = height g \<and>
   length (homeGrid (evaporate_loop r i g)) = length (homeGrid g) \<and>
   length (foodGrid (evaporate_loop r i g)) = length (foodGrid g)"
proof (induction r i g rule: evaporate_loop.induct)
  case (1 rate i g)
  show ?case
  proof (cases "i < length (homeGrid g)")
    case True
    then show ?thesis
      using "1.IH"[OF True refl refl refl refl]
      by (subst (1 2 3 4) evaporate_loop.simps) (simp add: Let_def split: if_splits)
  next
    case False
    then show ?thesis by (subst (1 2 3 4) evaporate_loop.simps) simp
  qed
qed

lemma evaporate_loop_home_nth:
  "j < length (homeGrid g) \<Longrightarrow>
   homeGrid (evaporate_loop r i g) ! j =
     (if i \<le> j then decay_cell r (homeGrid g ! j) else homeGrid g ! j)"
proof (induction r i g rule: evaporate_loop.induct)
  case (1 rate i g)
  show ?case
  proof (cases "i < length (homeGrid g)")
    case True
    show ?thesis
      using "1.IH"[OF True refl refl refl refl] "1.prems" True
      by (subst evaporate_loop.simps, cases "i = j")
         (auto simp add: Let_def decay_cell_def nth_list_update)
  next
    case False
    then show ?thesis using "1.prems" by (subst evaporate_loop.simps) simp
  qed
qed

lemma evaporate_loop_food_nth:
  "j < length (homeGrid g) \<Longrightarrow> j < length (foodGrid g) \<Longrightarrow>
   foodGrid (evaporate_loop r i g) ! j =
     (if i \<le> j then decay_cell r (foodGrid g ! j) else foodGrid g ! j)"
proof (induction r i g rule: evaporate_loop.induct)
  case (1 rate i g)
  show ?case
  proof (cases "i < length (homeGrid g)")
    case True
    show ?thesis
      using "1.IH"[OF True refl refl refl refl] "1.prems" True
      by (subst evaporate_loop.simps, cases "i = j")
         (auto simp add: Let_def decay_cell_def nth_list_update)
  next
    case False
    then show ?thesis using "1.prems" by (subst evaporate_loop.simps) simp
  qed
qed

lemma evaporate_home: "homeGrid (evaporate r g) = map (decay_cell r) (homeGrid g)"
  by (rule nth_equalityI)
     (simp_all add: evaporate_def evaporate_loop_fields evaporate_loop_home_nth)

lemma evaporate_food:
  "length (foodGrid g) = length (homeGrid g) \<Longrightarrow>
   foodGrid (evaporate r g) = map (decay_cell r) (foodGrid g)"
  by (rule nth_equalityI)
     (simp_all add: evaporate_def evaporate_loop_fields evaporate_loop_food_nth)

lemma evaporate_width: "width (evaporate r g) = width g"
  by (simp add: evaporate_def evaporate_loop_fields)

lemma evaporate_height: "height (evaporate r g) = height g"
  by (simp add: evaporate_def evaporate_loop_fields)

lemma grid_ok_new: "grid_ok (newPheromoneGrid w h)"
  by (simp add: grid_ok_def newPheromoneGrid_def)

lemma grid_ok_deposit: "grid_ok g \<Longrightarrow> grid_ok (deposit single g x y c amount)"
  by (simp add: grid_ok_def deposit_def Let_def)

lemma grid_ok_evaporate: "grid_ok g \<Longrightarrow> grid_ok (evaporate r g)"
  by (simp add: grid_ok_def evaporate_def evaporate_loop_fields)

lemma grid_ok_reset: "grid_ok g \<Longrightarrow> grid_ok (reset g)"
  by (simp add: grid_ok_def reset_def)

lemma grid_ok_applyOp: "grid_ok g \<Longrightarrow> grid_ok (applyOp single g op)"
  by (cases op) (simp_all add: grid_ok_deposit grid_ok_evaporate grid_ok_reset)

text \<open>The flat index of an in-bounds point is the index of its truncated cell.\<close>

lemma inBounds_index:
  assumes "inBounds g x y"
  shows "0 \<le> \<lfloor>y\<rfloor> * int (width g) + \<lfloor>x\<rfloor>"
    and "nat (\<lfloor>y\<rfloor> * int (width g) + \<lfloor>x\<rfloor>) = nat \<lfloor>y\<rfloor> * width g + nat \<lfloor>x\<rfloor>"
    and "nat \<lfloor>y\<rfloor> * width g + nat \<lfloor>x\<rfloor> < width g * height g"
    and "\<lfloor>y\<rfloor> * int (width g) + \<lfloor>x\<rfloor> < int (width g * height g)"
proof -
  from assms have x: "0 \<le> \<lfloor>x\<rfloor>" "\<lfloor>x\<rfloor> < int (width g)" and y: "0 \<le> \<lfloor>y\<rfloor>" "\<lfloor>y\<rfloor> < int (height g)"
    by (simp_all add: inBounds_def floor_less_iff)
  have eq: "\<lfloor>y\<rfloor> * int (width g) + \<lfloor>x\<rfloor> = int (nat \<lfloor>y\<rfloor> * width g + nat \<lfloor>x\<rfloor>)"
    using x y by simp
  show "0 \<le> \<lfloor>y\<rfloor> * int (width g) + \<lfloor>x\<rfloor>"
    unfolding eq by (rule of_nat_0_le_iff)
  show "nat (\<lfloor>y\<rfloor> * int (width g) + \<lfloor>x\<rfloor>) = nat \<lfloor>y\<rfloor> * width g + nat \<lfloor>x\<rfloor>"
    unfolding eq by (rule nat_int)
  have cx: "nat \<lfloor>x\<rfloor> < width g" using x by linarith
  have cy: "nat \<lfloor>y\<rfloor> < height g" using y by linarith
  have "nat \<lfloor>y\<rfloor> * width g + nat \<lfloor>x\<rfloor> < nat \<lfloor>y\<rfloor> * width g + width g"
    using cx by simp
  also have "\<dots> = Suc (nat \<lfloor>y\<rfloor>) * width g" by simp
  also have "\<dots> \<le> height g * width g"
    using cy by (intro mult_le_mono1) simp
  finally show lt: "nat \<lfloor>y\<rfloor> * width g + nat \<lfloor>x\<rfloor> < width g * height g"
    by (simp add: mult.commute)
  show "\<lfloor>y\<rfloor> * int (width g) + \<lfloor>x\<rfloor> < int (width g * height g)"
    unfolding eq using lt by (simp only: of_nat_less_iff)
qed

lemma floor_m1: "\<lfloor>- 1 :: real\<rfloor> = - 1"
  by (simp add: floor_eq_iff)

lemma deposit_in_bounds:
  assumes "grid_ok g" and "inBounds g x y"
  shows "deposit single g x y c amount =
     (if single \<or> c = HOME
      then g\<lparr> homeGrid := (homeGrid g)[nat \<lfloor>y\<rfloor> * width g + nat \<lfloor>x\<rfloor> :=
                 fround (min 1 (dround (homeGrid g ! (nat \<lfloor>y\<rfloor> * width g + nat \<lfloor>x\<rfloor>) + amount)))] \<rparr>
      else g\<lparr> foodGrid := (foodGrid g)[nat \<lfloor>y\<rfloor> * width g + nat \<lfloor>x\<rfloor> :=
                 fround (min 1 (dround (foodGrid g ! (nat \<lfloor>y\<rfloor> * width g + nat \<lfloor>x\<rfloor>) + amount)))] \<rparr>)"
proof -
  note ix = inBounds_index[OF assms(2)]
  have len: "int (length (homeGrid g)) = int (width g * height g)"
    using assms(1) by (simp only: grid_ok_def)
  show ?thesis
    unfolding deposit_def Let_def len using ix(1,4)
    by (cases c; cases single) (simp_all only: ix(2) simp_thms if_True if_False PheromoneType.distinct)
qed

lemma getLevel_in_bounds:
  assumes "inBounds g x y"
  shows "getLevel single g x y c =
     (if single \<or> c = HOME then homeGrid g ! (nat \<lfloor>y\<rfloor> * width g + nat \<lfloor>x\<rfloor>)
      else foodGrid g ! (nat \<lfloor>y\<rfloor> * width g + nat \<lfloor>x\<rfloor>))"
proof -
  note ix = inBounds_index[OF assms]
  have nb: "(x < 0 \<or> x \<ge> real (width g) \<or> y < 0 \<or> y \<ge> real (height g)) = False"
    using assms by (auto simp: inBounds_def)
  show ?thesis
    unfolding getLevel_def Let_def nb
    by (cases c; cases single) (simp_all only: ix(2) simp_thms if_True if_False PheromoneType.distinct)
qed

lemma getLevel_out_of_bounds: "\<not> inBounds g x y \<Longrightarrow> getLevel single g x y c = - 1"
  by (auto simp: getLevel_def inBounds_def)

lemma unit_cells_update:
  "unit_cells xs \<Longrightarrow> 0 \<le> v \<Longrightarrow> v \<le> 1 \<Longrightarrow> unit_cells (xs[i := v])"
  by (auto simp: unit_cells_def list_all_iff dest!: set_update_subset_insert[THEN subsetD])

lemma unit_cells_nth: "unit_cells xs \<Longrightarrow> i < length xs \<Longrightarrow> 0 \<le> xs ! i \<and> xs ! i \<le> 1"
  by (simp add: unit_cells_def list_all_length)

lemma round_unit:
  assumes "0 \<le> x" and "x \<le> 1"
  shows "0 \<le> fround x \<and> fround x \<le> 1" and "0 \<le> dround x \<and> dround x \<le> 1"
proof -
  have x: "x \<le> 2 powi 0" using assms(2) by simp
  have "roundTo 24 (- 126) x \<le> 2 powi 0" using x by (rule roundTo_le_pow2) simp_all
  then show "0 \<le> fround x \<and> fround x \<le> 1"
    using roundTo_nonneg[OF assms(1), of 24 "- 126"] by (simp add: fround_def)
  have "roundTo 53 (- 1022) x \<le> 2 powi 0" using x by (rule roundTo_le_pow2) simp_all
  then show "0 \<le> dround x \<and> dround x \<le> 1"
    using roundTo_nonneg[OF assms(1), of 53 "- 1022"] by (simp add: dround_def)
qed

lemma decay_cell_unit:
  assumes "0 \<le> v" "v \<le> 1" "0 < r" "r \<le> 1"
  shows "0 \<le> decay_cell r v \<and> decay_cell r v \<le> 1"
proof -
  have "0 \<le> v * r" using assms by simp
  moreover have "v * r \<le> 1 * 1" using assms by (intro mult_mono) simp_all
  ultimately have "0 \<le> dround (v * r) \<and> dround (v * r) \<le> 1"
    using round_unit(2) by simp
  then have "0 \<le> fround (dround (v * r)) \<and> fround (dround (v * r)) \<le> 1"
    using round_unit(1) by simp
  then show ?thesis by (simp add: decay_cell_def Let_def)
qed

lemma unit_cells_decay:
  "unit_cells xs \<Longrightarrow> 0 < r \<Longrightarrow> r \<le> 1 \<Longrightarrow> unit_cells (map (decay_cell r) xs)"
  by (simp add: unit_cells_def list_all_iff decay_cell_unit)

lemma snapped_cells_decay: "snapped_cells (map (decay_cell r) xs)"
  using decay_cell_snapped by (auto simp: snapped_cells_def list_all_iff)

lemma unit_cells_deposit:
  assumes "grid_ok g" "unit_cells (homeGrid g)" "unit_cells (foodGrid g)" "0 \<le> amount"
  shows "unit_cells (homeGrid (deposit single g x y c amount)) \<and>
         unit_cells (foodGrid (deposit single g x y c amount))"
proof (cases "0 \<le> \<lfloor>y\<rfloor> * int (width g) + \<lfloor>x\<rfloor> \<and>
              \<lfloor>y\<rfloor> * int (width g) + \<lfloor>x\<rfloor> < int (length (homeGrid g))")
  case False
  then show ?thesis using assms by (auto simp: deposit_def Let_def)
next
  case True
  define k where "k = nat (\<lfloor>y\<rfloor> * int (width g) + \<lfloor>x\<rfloor>)"
  have k1: "k < length (homeGrid g)"
    using True by (simp add: k_def nat_less_iff)
  have k: "k < length (homeGrid g)" "k < length (foodGrid g)"
    using k1 assms(1) by (simp_all add: grid_ok_def)
  have capped: "0 \<le> fround (min 1 (dround (v + amount))) \<and> fround (min 1 (dround (v + amount))) \<le> 1"
    if "0 \<le> v" for v
  proof -
    have "0 \<le> dround (v + amount)"
      unfolding dround_def using that assms(4) by (intro roundTo_nonneg) simp
    then have "0 \<le> min 1 (dround (v + amount))" "min 1 (dround (v + amount)) \<le> 1"
      by simp_all
    then show ?thesis by (rule round_unit(1))
  qed
  have h: "0 \<le> fround (min 1 (dround (homeGrid g ! k + amount))) \<and>
           fround (min 1 (dround (homeGrid g ! k + amount))) \<le> 1"
    using unit_cells_nth[OF assms(2) k(1)] by (intro capped) simp
  have f: "0 \<le> fround (min 1 (dround (foodGrid g ! k + amount))) \<and>
           fround (min 1 (dround (foodGrid g ! k + amount))) \<le> 1"
    using unit_cells_nth[OF assms(3) k(2)] by (intro capped) simp
  show ?thesis
    using True assms(2,3) h f
    by (simp add: deposit_def Let_def k_def[symmetric] unit_cells_update)
qed

lemma unit_cells_zero: "unit_cells (map (\<lambda>_. 0) xs)" "unit_cells (replicate n 0)"
  by (simp_all add: unit_cells_def list_all_iff)

lemma unit_cells_applyOp:
  assumes "grid_ok g" "unit_cells (homeGrid g)" "unit_cells (foodGrid g)" "valid_op op"
  shows "unit_cells (homeGrid (applyOp single g op)) \<and> unit_cells (foodGrid (applyOp single g op))"
proof (cases op)
  case (Deposit x y c amount)
  then show ?thesis using assms unit_cells_deposit by simp
next
  case (Decay r)
  have "length (foodGrid g) = length (homeGrid g)" using assms(1) by (simp add: grid_ok_def)
  then show ?thesis using assms Decay
    by (simp add: evaporate_home evaporate_food unit_cells_decay)
next
  case Reset
  then show ?thesis by (simp add: reset_def unit_cells_zero)
qed

lemma unit_cells_run:
  "grid_ok g \<Longrightarrow> unit_cells (homeGrid g) \<Longrightarrow> unit_cells (foodGrid g) \<Longrightarrow> list_all valid_op ops \<Longrightarrow>
   grid_ok (foldl (applyOp single) g ops) \<and>
   unit_cells (homeGrid (foldl (applyOp single) g ops)) \<and>
   unit_cells (foodGrid (foldl (applyOp single) g ops))"
proof (induction ops arbitrary: g)
  case Nil
  then show ?case by simp
next
  case (Cons op ops)
  from Cons.prems have v: "valid_op op" "list_all valid_op ops" by simp_all
  show ?case
    using Cons.IH[OF grid_ok_applyOp[OF Cons.prems(1)]] unit_cells_applyOp[OF Cons.prems(1,2,3) v(1)] v(2)
    by simp
qed

lemma deposit_other_grid:
  "foodGrid (deposit True g x y c amount) = foodGrid g"
  "foodGrid (deposit False g x y HOME amount) = foodGrid g"
  "homeGrid (deposit False g x y FOOD amount) = homeGrid g"
  "width (deposit single g x y c amount) = width g"
  "height (deposit single g x y c amount) = height g"
  by (simp_all add: deposit_def Let_def)

subsection \<open>Repeated decay\<close>

lemma evaporate_funpow_fields:
  "length (foodGrid g) = length (homeGrid g) \<Longrightarrow>
   homeGrid ((evaporate r ^^ n) g) = map (decay_cell r ^^ n) (homeGrid g) \<and>
   foodGrid ((evaporate r ^^ n) g) = map (decay_cell r ^^ n) (foodGrid g)"
proof (induction n)
  case 0
  show ?case by simp
next
  case (Suc n)
  from Suc have "length (foodGrid ((evaporate r ^^ n) g)) = length (homeGrid ((evaporate r ^^ n) g))"
    by simp
  then show ?case using Suc by (simp add: evaporate_home evaporate_food)
qed

subsection \<open>The two revisions\<close>

lemma evaporate_loop_old_eq: "evaporate_loop_old r i g = evaporate_loop r i g"
proof (induction r i g rule: evaporate_loop.induct)
  case (1 rate i g)
  show ?case
  proof (cases "i < length (homeGrid g)")
    case True
    show ?thesis
      by (subst evaporate_loop.simps, subst evaporate_loop_old.simps)
         (simp only: True if_True Let_def "1.IH"[OF True refl refl refl refl])
  next
    case False
    then show ?thesis
      by (subst evaporate_loop.simps, subst evaporate_loop_old.simps) simp
  qed
qed

section \<open>Lemmas on the agent and the spawn block\<close>

subsection \<open>Boundaries\<close>

subsection \<open>Obstacles\<close>

lemma handleObstacles_position:
  "(agent_x (handleObstacles obstacles rnd prevX prevY a) = prevX \<and>
    agent_y (handleObstacles obstacles rnd prevX prevY a) = prevY) \<or>
   (handleObstacles obstacles rnd prevX prevY a = a \<and>
    \<not> insideAny obstacles (agent_x a) (agent_y a))"
  by (induction obstacles) (auto simp: strictlyInside_def)

subsection \<open>State transition\<close>

lemma hypot_zero [simp]: "hypot a 0 = \<bar>a\<bar>"
  by (simp add: hypot_def)

lemma handleStateAndPheromones_position:
  "handleStateAndPheromones p nests foodSources grid a = Some (g', a', ns') \<Longrightarrow>
   agent_x a' = agent_x a \<and> agent_y a' = agent_y a"
  by (auto simp: handleStateAndPheromones_def fade_def Let_def split: prod.splits if_splits)

lemma onFood_iff:
  "onFood a foodSources \<longleftrightarrow>
     (\<exists>f \<in> set foodSources. hypot (agent_x a - food_x f) (agent_y a - food_y f) < food_r f)"
  by (induction foodSources) auto

subsection \<open>Spawning\<close>

lemma nest_index_in_range:
  assumes "nests \<noteq> []" and "0 \<le> r" and "r < 1"
  shows "0 \<le> \<lfloor>r * real (length nests)\<rfloor> \<and> \<lfloor>r * real (length nests)\<rfloor> < int (length nests)"
proof -
  have pos: "0 < real (length nests)" using assms(1) by simp
  have "0 \<le> r * real (length nests)" using assms(2) by simp
  moreover have "r * real (length nests) < 1 * real (length nests)"
    using assms(3) pos by (intro mult_strict_right_mono)
  ultimately show ?thesis by (simp add: floor_less_iff)
qed

lemma floor_step:
  fixes s :: real
  shows "\<lfloor>frac (real k * s) + s\<rfloor> = \<lfloor>real (Suc k) * s\<rfloor> - \<lfloor>real k * s\<rfloor>"
    and "frac (frac (real k * s) + s) = frac (real (Suc k) * s)"
proof -
  have e: "frac (real k * s) + s = real (Suc k) * s - of_int \<lfloor>real k * s\<rfloor>"
    by (simp add: frac_def algebra_simps)
  show "\<lfloor>frac (real k * s) + s\<rfloor> = \<lfloor>real (Suc k) * s\<rfloor> - \<lfloor>real k * s\<rfloor>"
    unfolding e by (rule floor_diff_of_int)
  show "frac (frac (real k * s) + s) = frac (real (Suc k) * s)"
    unfolding e by (simp add: frac_def)
qed

lemma floor_mono_ticks:
  fixes s :: real
  assumes "0 \<le> s"
  shows "0 \<le> \<lfloor>real k * s\<rfloor>" and "\<lfloor>real k * s\<rfloor> \<le> \<lfloor>real (Suc k) * s\<rfloor>"
proof -
  show "0 \<le> \<lfloor>real k * s\<rfloor>" using assms by simp
  have "real k * s \<le> real (Suc k) * s"
    using assms by (intro mult_right_mono) simp_all
  then show "\<lfloor>real k * s\<rfloor> \<le> \<lfloor>real (Suc k) * s\<rfloor>" by (rule floor_mono)
qed

lemma spawn_loop_count:
  assumes "\<not> enableSortieRegulation p \<or> list_all (\<lambda>nest. surgeTimer nest > 0) nests"
    and "nests \<noteq> []" and "unit_rnd rnd"
  shows "\<exists>ags'. spawn_loop p nests rnd n k ags = Some ags' \<and>
           int (length ags') =
             (if agentCount p \<le> int (length ags) then int (length ags)
              else min (agentCount p) (int (length ags) + int n))"
proof (induction n arbitrary: k ags)
  case 0
  show ?case by simp
next
  case (Suc n)
  have r: "0 \<le> rnd k" "rnd k < 1" using assms(3) by (simp_all add: unit_rnd_def)
  note j = nest_index_in_range[OF assms(2) r]
  show ?case
  proof (cases "agentCount p \<le> int (length ags)")
    case True
    then show ?thesis by simp
  next
    case False
    define nest where "nest = nests ! nat \<lfloor>rnd k * real (length nests)\<rfloor>"
    define ags1 where "ags1 = ags @ [newAgent (nest_x nest) (nest_y nest) (rnd (k + 1))]"
    have "nat \<lfloor>rnd k * real (length nests)\<rfloor> < length nests" using j by linarith
    then have open_gate: "\<not> enableSortieRegulation p \<or> surgeTimer nest > 0"
      using assms(1) by (auto simp: nest_def list_all_length)
    have step: "spawn_loop p nests rnd (Suc n) k ags = spawn_loop p nests rnd n (k + 2) ags1"
      using False j open_gate by (auto simp: Let_def ags1_def nest_def)
    have len: "int (length ags1) = int (length ags) + 1" by (simp add: ags1_def)
    from Suc[of "k + 2" ags1] obtain ags' where
      a: "spawn_loop p nests rnd n (k + 2) ags1 = Some ags'" and
      b: "int (length ags') =
            (if agentCount p \<le> int (length ags1) then int (length ags1)
             else min (agentCount p) (int (length ags1) + int n))"
      by blast
    have "int (length ags') = min (agentCount p) (int (length ags) + int (Suc n))"
      using b False unfolding len by (simp split: if_splits)
    then show ?thesis using a False unfolding step by simp
  qed
qed

lemma spawnStep_count:
  assumes "\<not> enableSortieRegulation p \<or> list_all (\<lambda>nest. surgeTimer nest > 0) nests"
    and "nests \<noteq> []" and "unit_rnd rnd"
    and "int (length (agents st)) < agentCount p"
  shows "\<exists>st'. spawnStep p nests rnd st = Some st' \<and>
           int (length (agents st')) =
             min (agentCount p)
               (int (length (agents st)) + int (nat \<lfloor>dround (spawnAccumulator st + spawnRate p)\<rfloor>)) \<and>
           spawnAccumulator st' =
             dround (dround (spawnAccumulator st + spawnRate p)
                     - of_int \<lfloor>dround (spawnAccumulator st + spawnRate p)\<rfloor>)"
proof -
  from spawn_loop_count[OF assms(1,2,3),
      of "nat \<lfloor>dround (spawnAccumulator st + spawnRate p)\<rfloor>" 0 "agents st"]
  obtain ags' where
    a: "spawn_loop p nests rnd (nat \<lfloor>dround (spawnAccumulator st + spawnRate p)\<rfloor>) 0 (agents st)
          = Some ags'" and
    b: "int (length ags') = min (agentCount p)
          (int (length (agents st)) + int (nat \<lfloor>dround (spawnAccumulator st + spawnRate p)\<rfloor>))"
    using assms(4) by auto
  show ?thesis
    using assms(4) a b by (simp add: spawnStep_def Let_def)
qed

text \<open>Sums of multiples of \<open>2 ^ - m\<close> below \<open>2 ^ 53 / 2 ^ m\<close> are exact in double arithmetic.\<close>

lemma dround_dyadic:
  assumes "x = of_int n / 2 ^ m" and "\<bar>n\<bar> < 2 ^ 53" and "m \<le> 1074"
  shows "dround x = x"
  unfolding dround_def
proof (rule roundTo_exact[where n = n and k = "- int m"])
  show "x = of_int n * 2 powi (- int m)"
    unfolding assms(1) by (simp add: power_int_minus divide_inverse)
  show "\<bar>n\<bar> < 2 ^ 53" by (rule assms(2))
  show "- 1022 - int 53 + 1 \<le> - int m" using assms(3) by simp
qed

lemma frac_dyadic: "frac (real_of_int z / 2 ^ m) = real_of_int (z mod 2 ^ m) / 2 ^ m"
proof -
  define q r where "q = z div 2 ^ m" and "r = z mod 2 ^ m"
  have "z = q * 2 ^ m + r" by (simp only: q_def r_def div_mult_mod_eq)
  then have z: "real_of_int z = real_of_int q * 2 ^ m + real_of_int r" by simp
  have "\<lfloor>real_of_int z / 2 ^ m\<rfloor> = q"
    using floor_divide_of_int_eq[of z "2 ^ m", where ?'a = real] by (simp add: q_def)
  then have "frac (real_of_int z / 2 ^ m) = real_of_int z / 2 ^ m - real_of_int q"
    by (simp add: frac_def)
  also have "\<dots> = real_of_int r / 2 ^ m"
    unfolding z by (simp add: field_simps)
  finally show ?thesis by (simp add: r_def)
qed

lemma spawn_sums_exact:
  assumes "s = real_of_int j / 2 ^ m" and "0 \<le> j" and "j + 2 ^ m \<le> 2 ^ 53"
  shows "dround (frac (real k * s) + s) = frac (real k * s) + s"
    and "dround (frac (real k * s) + s - of_int \<lfloor>frac (real k * s) + s\<rfloor>)
           = frac (real k * s) + s - of_int \<lfloor>frac (real k * s) + s\<rfloor>"
proof -
  have "(2::int) ^ m \<le> 2 ^ 53" using assms(2,3) by linarith
  then have m53: "m \<le> 53" by (rule power_le_imp_le_exp[rotated]) simp
  then have m: "m \<le> 1074" by simp
  define a where "a = (int k * j) mod 2 ^ m"
  have a: "0 \<le> a" "a < 2 ^ m" by (simp_all add: a_def)
  have ks: "real k * s = real_of_int (int k * j) / 2 ^ m" by (simp add: assms(1))
  have fr: "frac (real k * s) = real_of_int a / 2 ^ m"
    unfolding ks a_def by (rule frac_dyadic)
  have sum: "frac (real k * s) + s = real_of_int (a + j) / 2 ^ m"
    unfolding fr by (simp add: assms(1) add_divide_distrib)
  have "\<bar>a + j\<bar> < 2 ^ 53" using a assms(2,3) by linarith
  from dround_dyadic[OF sum this m] show "dround (frac (real k * s) + s) = frac (real k * s) + s" .
  define b where "b = (a + j) mod 2 ^ m"
  have b: "0 \<le> b" "b < 2 ^ m" by (simp_all add: b_def)
  have "frac (real k * s) + s - of_int \<lfloor>frac (real k * s) + s\<rfloor> = frac (frac (real k * s) + s)"
    by (simp add: frac_def)
  also have "\<dots> = real_of_int b / 2 ^ m"
    unfolding sum b_def by (rule frac_dyadic)
  finally have rest: "frac (real k * s) + s - of_int \<lfloor>frac (real k * s) + s\<rfloor> = real_of_int b / 2 ^ m" .
  have "\<bar>b\<bar> < 2 ^ 53" using b \<open>(2::int) ^ m \<le> 2 ^ 53\<close> by linarith
  from dround_dyadic[OF rest this m]
  show "dround (frac (real k * s) + s - of_int \<lfloor>frac (real k * s) + s\<rfloor>)
           = frac (real k * s) + s - of_int \<lfloor>frac (real k * s) + s\<rfloor>" .
qed

lemma spawnStep_inv:
  assumes "\<not> enableSortieRegulation p \<or> list_all (\<lambda>nest. surgeTimer nest > 0) nests"
    and "nests \<noteq> []" and "unit_rnd rnd"
    and "spawnRate p = real_of_int j / 2 ^ m" and "0 \<le> j" and "j + 2 ^ m \<le> 2 ^ 53"
    and "spawn_inv p k st"
  shows "\<exists>st'. spawnStep p nests rnd st = Some st' \<and> spawn_inv p (Suc k) st'"
proof (cases "int (length (agents st)) < agentCount p")
  case False
  have s0: "0 \<le> spawnRate p" unfolding assms(4) using assms(5) by simp
  then have same: "spawnStep p nests rnd st = Some st" using False by (simp add: spawnStep_def)
  note m = floor_mono_ticks[OF s0, of k]
  have "spawn_inv p (Suc k) st"
    using assms(7) False m unfolding spawn_inv_def by (auto simp: max_def min_def split: if_splits)
  then show ?thesis using same by simp
next
  case True
  have s0: "0 \<le> spawnRate p" unfolding assms(4) using assms(5) by simp
  note m = floor_mono_ticks[OF s0, of k]
  have below: "\<lfloor>real k * spawnRate p\<rfloor> < agentCount p"
    using assms(7) True m unfolding spawn_inv_def by (auto simp: max_def min_def split: if_splits)
  have len: "int (length (agents st)) = \<lfloor>real k * spawnRate p\<rfloor>"
    and acc: "spawnAccumulator st = frac (real k * spawnRate p)"
    using assms(7) below m unfolding spawn_inv_def by (auto simp: max_def min_def)
  note ex = spawn_sums_exact[OF assms(4,5,6), of k]
  from spawnStep_count[OF assms(1,2,3) True] obtain st' where
    a: "spawnStep p nests rnd st = Some st'" and
    b: "int (length (agents st')) =
             min (agentCount p)
               (int (length (agents st)) + int (nat \<lfloor>frac (real k * spawnRate p) + spawnRate p\<rfloor>))" and
    c: "spawnAccumulator st' =
          frac (real k * spawnRate p) + spawnRate p
            - of_int \<lfloor>frac (real k * spawnRate p) + spawnRate p\<rfloor>"
    unfolding acc ex by blast
  have cnt: "int (nat \<lfloor>frac (real k * spawnRate p) + spawnRate p\<rfloor>) =
               \<lfloor>real (Suc k) * spawnRate p\<rfloor> - \<lfloor>real k * spawnRate p\<rfloor>"
    unfolding floor_step(1) using m(2) by simp
  define A B where "A = \<lfloor>real k * spawnRate p\<rfloor>" and "B = \<lfloor>real (Suc k) * spawnRate p\<rfloor>"
  have ab: "0 \<le> A" "A \<le> B" "A < agentCount p"
    using m below by (simp_all only: A_def B_def)
  have "min (agentCount p) (A + (B - A)) = max 0 (min (agentCount p) B)"
    using ab by (simp add: max_def min_def)
  then have n: "int (length (agents st')) = max 0 (min (agentCount p) \<lfloor>real (Suc k) * spawnRate p\<rfloor>)"
    unfolding b cnt len by (simp only: A_def B_def)
  have "spawnAccumulator st' = frac (frac (real k * spawnRate p) + spawnRate p)"
    unfolding c by (simp add: frac_def)
  then have "spawnAccumulator st' = frac (real (Suc k) * spawnRate p)"
    by (simp only: floor_step(2))
  with n have "spawn_inv p (Suc k) st'"
    by (simp only: spawn_inv_def simp_thms)
  then show ?thesis using a by simp
qed

lemma spawnTicks_inv:
  assumes "spawnRate p = real_of_int j / 2 ^ m" and "0 \<le> j" and "j + 2 ^ m \<le> 2 ^ 53"
  shows "list_all (tick_ok p) ticks \<Longrightarrow> spawn_inv p k st \<Longrightarrow>
         \<exists>st'. spawnTicks p ticks st = Some st' \<and> spawn_inv p (k + length ticks) st'"
proof (induction ticks arbitrary: k st)
  case Nil
  then show ?case by simp
next
  case (Cons t ticks)
  obtain nests rnd where t: "t = (nests, rnd)" by (cases t)
  from Cons.prems(1) t have ok: "nests \<noteq> []" "unit_rnd rnd"
    "\<not> enableSortieRegulation p \<or> list_all (\<lambda>nest. surgeTimer nest > 0) nests"
    "list_all (tick_ok p) ticks"
    by simp_all
  from spawnStep_inv[OF ok(3,1,2) assms Cons.prems(2)] obtain st1 where
    a: "spawnStep p nests rnd st = Some st1" and b: "spawn_inv p (Suc k) st1"
    by blast
  from Cons.IH[OF ok(4) b] obtain st' where
    c: "spawnTicks p ticks st1 = Some st'" and d: "spawn_inv p (Suc k + length ticks) st'"
    by blast
  show ?case using a c d by (simp add: t)
qed

lemma tenth_accumulated:
  "dround (3602879701896397 / 36028797018963968) = 3602879701896397 / 36028797018963968"
  "dround (3602879701896397 / 18014398509481984) = 3602879701896397 / 18014398509481984"
  "dround (10808639105689191 / 36028797018963968) = 1351079888211149 / 4503599627370496"
  "dround (1351079888211149 / 4503599627370496) = 1351079888211149 / 4503599627370496"
  "dround (14411518807585589 / 36028797018963968) = 3602879701896397 / 9007199254740992"
  "dround (3602879701896397 / 9007199254740992) = 3602879701896397 / 9007199254740992"
  "dround (18014398509481985 / 36028797018963968) = 1 / 2"
  "dround (1 / 2) = 1 / 2"
  "dround (21617278211378381 / 36028797018963968) = 5404319552844595 / 9007199254740992"
  "dround (5404319552844595 / 9007199254740992) = 5404319552844595 / 9007199254740992"
  "dround (25220157913274777 / 36028797018963968) = 3152519739159347 / 4503599627370496"
  "dround (3152519739159347 / 4503599627370496) = 3152519739159347 / 4503599627370496"
  "dround (28823037615171173 / 36028797018963968) = 7205759403792793 / 9007199254740992"
  "dround (7205759403792793 / 9007199254740992) = 7205759403792793 / 9007199254740992"
  "dround (32425917317067569 / 36028797018963968) = 2026619832316723 / 2251799813685248"
  "dround (2026619832316723 / 2251799813685248) = 2026619832316723 / 2251799813685248"
  "dround (36028797018963965 / 36028797018963968) = 9007199254740991 / 9007199254740992"
  "dround (9007199254740991 / 9007199254740992) = 9007199254740991 / 9007199254740992"
proof -
  show "dround (3602879701896397 / 36028797018963968) = 3602879701896397 / 36028797018963968"
    unfolding dround_def by (subst roundTo_eval[where e = "- 4"]) (simp_all add: roundEven_def)
  show "dround (3602879701896397 / 18014398509481984) = 3602879701896397 / 18014398509481984"
    unfolding dround_def by (subst roundTo_eval[where e = "- 3"]) (simp_all add: roundEven_def)
  show "dround (10808639105689191 / 36028797018963968) = 1351079888211149 / 4503599627370496"
    unfolding dround_def by (subst roundTo_eval[where e = "- 2"]) (simp_all add: roundEven_def)
  show "dround (1351079888211149 / 4503599627370496) = 1351079888211149 / 4503599627370496"
    unfolding dround_def by (subst roundTo_eval[where e = "- 2"]) (simp_all add: roundEven_def)
  show "dround (14411518807585589 / 36028797018963968) = 3602879701896397 / 9007199254740992"
    unfolding dround_def by (subst roundTo_eval[where e = "- 2"]) (simp_all add: roundEven_def)
  show "dround (3602879701896397 / 9007199254740992) = 3602879701896397 / 9007199254740992"
    unfolding dround_def by (subst roundTo_eval[where e = "- 2"]) (simp_all add: roundEven_def)
  show "dround (18014398509481985 / 36028797018963968) = 1 / 2"
    unfolding dround_def by (subst roundTo_eval[where e = "- 1"]) (simp_all add: roundEven_def)
  show "dround (1 / 2) = 1 / 2"
    unfolding dround_def by (subst roundTo_eval[where e = "- 1"]) (simp_all add: roundEven_def)
  show "dround (21617278211378381 / 36028797018963968) = 5404319552844595 / 9007199254740992"
    unfolding dround_def by (subst roundTo_eval[where e = "- 1"]) (simp_all add: roundEven_def)
  show "dround (5404319552844595 / 9007199254740992) = 5404319552844595 / 9007199254740992"
    unfolding dround_def by (subst roundTo_eval[where e = "- 1"]) (simp_all add: roundEven_def)
  show "dround (25220157913274777 / 36028797018963968) = 3152519739159347 / 4503599627370496"
    unfolding dround_def by (subst roundTo_eval[where e = "- 1"]) (simp_all add: roundEven_def)
  show "dround (3152519739159347 / 4503599627370496) = 3152519739159347 / 4503599627370496"
    unfolding dround_def by (subst roundTo_eval[where e = "- 1"]) (simp_all add: roundEven_def)
  show "dround (28823037615171173 / 36028797018963968) = 7205759403792793 / 9007199254740992"
    unfolding dround_def by (subst roundTo_eval[where e = "- 1"]) (simp_all add: roundEven_def)
  show "dround (7205759403792793 / 9007199254740992) = 7205759403792793 / 9007199254740992"
    unfolding dround_def by (subst roundTo_eval[where e = "- 1"]) (simp_all add: roundEven_def)
  show "dround (32425917317067569 / 36028797018963968) = 2026619832316723 / 2251799813685248"
    unfolding dround_def by (subst roundTo_eval[where e = "- 1"]) (simp_all add: roundEven_def)
  show "dround (2026619832316723 / 2251799813685248) = 2026619832316723 / 2251799813685248"
    unfolding dround_def by (subst roundTo_eval[where e = "- 1"]) (simp_all add: roundEven_def)
  show "dround (36028797018963965 / 36028797018963968) = 9007199254740991 / 9007199254740992"
    unfolding dround_def by (subst roundTo_eval[where e = "- 1"]) (simp_all add: roundEven_def)
  show "dround (9007199254740991 / 9007199254740992) = 9007199254740991 / 9007199254740992"
    unfolding dround_def by (subst roundTo_eval[where e = "- 1"]) (simp_all add: roundEven_def)
qed

lemma deposit_index_out_of_range:
  "\<lfloor>y\<rfloor> * int (width g) + \<lfloor>x\<rfloor> < 0 \<or> int (length (homeGrid g)) \<le> \<lfloor>y\<rfloor> * int (width g) + \<lfloor>x\<rfloor> \<Longrightarrow>
   deposit single g x y c amount = g"
  by (auto simp: deposit_def Let_def)

lemma handleBoundaries_in_bounds:
  "0 \<le> agent_x a \<Longrightarrow> agent_x a < real (width g) \<Longrightarrow> 0 \<le> agent_y a \<Longrightarrow>
   agent_y a < real (height g) \<Longrightarrow> handleBoundaries g a = a"
  by (simp add: handleBoundaries_def Let_def)

lemma sqrt2_lower: "11 / 10 \<le> sqrt 2"
  by (rule real_le_rsqrt) (simp add: power2_eq_square)

lemma getLevel_right_of_grid: "real (width g) \<le> x \<Longrightarrow> getLevel single g x y c = - 1"
  by (simp add: getLevel_def)

lemma sensor_beyond_edge:
  "real (width (newPheromoneGrid 600 600)) \<le> 589 + cos (pi / 4) * 20"
  "real (width (newPheromoneGrid 600 600)) \<le> 609"
  using sqrt2_lower by (simp_all add: newPheromoneGrid_def cos_45)

text \<open>Without a clamp, the rollback keeps an agent out of every obstacle.\<close>

lemma no_entry_without_clamp:
  assumes "\<not> insideAny obstacles prevX prevY"
    and "0 \<le> prevX" "prevX < real (width g)" "0 \<le> prevY" "prevY < real (height g)"
    and "0 \<le> agent_x a" "agent_x a < real (width g)" "0 \<le> agent_y a" "agent_y a < real (height g)"
  shows "\<not> insideAny obstacles
           (agent_x (handleBoundaries g (handleObstacles obstacles rnd prevX prevY a)))
           (agent_y (handleBoundaries g (handleObstacles obstacles rnd prevX prevY a)))"
proof -
  define b where "b = handleObstacles obstacles rnd prevX prevY a"
  have pos: "(agent_x b = prevX \<and> agent_y b = prevY) \<or>
             (b = a \<and> \<not> insideAny obstacles (agent_x a) (agent_y a))"
    unfolding b_def by (rule handleObstacles_position)
  then have inb: "0 \<le> agent_x b" "agent_x b < real (width g)" "0 \<le> agent_y b"
    "agent_y b < real (height g)"
    using assms by auto
  have "handleBoundaries g b = b"
    using inb by (rule handleBoundaries_in_bounds)
  then show ?thesis
    using pos assms(1) unfolding b_def[symmetric] by auto
qed

lemma evaporate_funpow_cell:
  assumes "grid_ok g" and "i < width g * height g" and "cells = homeGrid \<or> cells = foodGrid"
  shows "cells ((evaporate r ^^ n) g) ! i = (decay_cell r ^^ n) (cells g ! i)"
proof -
  have len: "length (foodGrid g) = length (homeGrid g)" "i < length (homeGrid g)" "i < length (foodGrid g)"
    using assms(1,2) by (simp_all add: grid_ok_def)
  show ?thesis
    using evaporate_funpow_fields[OF len(1), where n = n and r = r] len(2,3) assms(3) by auto
qed

lemma default_rate_stored:
  "decay_cell (8872091265919877 / 9007199254740992) 1 = 8262779 / 8388608"
proof -
  have d: "dround (8872091265919877 / 9007199254740992) = 8872091265919877 / 9007199254740992"
    unfolding dround_def
    by (rule roundTo_exact[where n = 8872091265919877 and k = "- 53"]) (simp_all add: power_int_minus)
  have f: "fround (8872091265919877 / 9007199254740992) = 8262779 / 8388608"
    unfolding fround_def
    by (subst roundTo_eval[where e = "- 1"]) (simp_all add: roundEven_def)
  show ?thesis
    by (simp add: decay_cell_def d f snapThreshold_value)
qed

section \<open>The claims\<close>

subsection \<open>C1: deposits outside the grid\<close>

text \<open>
  Claim C1 says that \<open>deposit\<close> at a point outside \<open>[0, W) \<times> [0, H)\<close> leaves both grids
  as they are. \<open>deposit\<close> tests the flat index \<open>floor(y) * width + floor(x)\<close> only, so
  a point left or right of the grid whose flat index is in range is written to the cell
  of a neighbouring row. On the 600 by 600 grid of the program the point \<open>(-1, 1)\<close> has
  the flat index 599: the deposit raises the cell \<open>(599, 0)\<close> from 0 to one half, in
  either mode. (\<open>deposit_index_out_of_range\<close> and \<open>deposit_in_bounds\<close> cover the part of
  the claim that holds.)
\<close>

theorem deposit_out_of_bounds_wraps:
  "getLevel True (newPheromoneGrid 600 600) 599 0 HOME = 0 \<and>
   getLevel True (deposit True (newPheromoneGrid 600 600) (- 1) 1 HOME (1 / 2)) 599 0 HOME = 1 / 2 \<and>
   getLevel False (newPheromoneGrid 600 600) 599 0 HOME = 0 \<and>
   getLevel False (deposit False (newPheromoneGrid 600 600) (- 1) 1 HOME (1 / 2)) 599 0 HOME = 1 / 2"
  by (simp add: getLevel_def deposit_def newPheromoneGrid_def Let_def floor_m1 round_half)

subsection \<open>C2: obstacles\<close>

text \<open>
  Claim C2 says that no agent that starts a tick outside every obstacle ends its update
  strictly inside one. \<open>handleObstacles\<close> tests the tentative position only, and
  \<open>handleBoundaries\<close> then moves a position beyond the right or the lower edge to
  \<open>width - 1\<close> or \<open>height - 1\<close>, which lies inside the perimeter wall of \<open>initMaze\<close>.
  With \<open>moveSpeed = 12\<close> and every random value one half, a FORAGING agent at
  \<open>(589, 300)\<close> that heads right on the empty field keeps its heading (its three sensors
  are beyond the edge), steps to \<open>(601, 300)\<close>, past the wall
  \<open>[590, 600] \<times> [0, 600]\<close>, and is clamped to \<open>(599, 300)\<close>, strictly inside that wall.
\<close>

theorem update_moves_agent_into_wall:
  "\<not> insideAny perimeterWalls 589 300 \<and>
   map_option agent_x (agentAfter (update (params\<lparr> moveSpeed := 12 \<rparr>) perimeterWalls
      [\<lparr> nest_x = 300, nest_y = 300, nest_r = 20, surgeTimer = 0 \<rparr>] []
      (rnd_const (1 / 2)) (newPheromoneGrid 600 600)
      [\<lparr> agent_x = 589, agent_y = 300, angle = 0, state = FORAGING, pheromoneStrength = 1,
         excitedLevel = 0, searchTime = 0, givingUp = False \<rparr>] 0
      \<lparr> agent_x = 589, agent_y = 300, angle = 0, state = FORAGING, pheromoneStrength = 1,
        excitedLevel = 0, searchTime = 0, givingUp = False \<rparr>)) = Some 599 \<and>
   map_option agent_y (agentAfter (update (params\<lparr> moveSpeed := 12 \<rparr>) perimeterWalls
      [\<lparr> nest_x = 300, nest_y = 300, nest_r = 20, surgeTimer = 0 \<rparr>] []
      (rnd_const (1 / 2)) (newPheromoneGrid 600 600)
      [\<lparr> agent_x = 589, agent_y = 300, angle = 0, state = FORAGING, pheromoneStrength = 1,
         excitedLevel = 0, searchTime = 0, givingUp = False \<rparr>] 0
      \<lparr> agent_x = 589, agent_y = 300, angle = 0, state = FORAGING, pheromoneStrength = 1,
        excitedLevel = 0, searchTime = 0, givingUp = False \<rparr>)) = Some 300 \<and>
   insideAny perimeterWalls 599 300"
proof -
  have s: "sense (params\<lparr> moveSpeed := 12 \<rparr>) (newPheromoneGrid 600 600) (rnd_const (1 / 2)) 0
      \<lparr> agent_x = 589, agent_y = 300, angle = 0, state = FORAGING, pheromoneStrength = 1,
        excitedLevel = 0, searchTime = 0, givingUp = False \<rparr> =
     (\<lparr> agent_x = 589, agent_y = 300, angle = 0, state = FORAGING, pheromoneStrength = 1,
        excitedLevel = 0, searchTime = 0, givingUp = False \<rparr>, 2)"
    by (simp add: sense_def params_def Let_def rnd_const_def
        getLevel_right_of_grid[OF sensor_beyond_edge(1)] getLevel_right_of_grid[OF sensor_beyond_edge(2)])
  have m: "update_move (params\<lparr> moveSpeed := 12 \<rparr>) perimeterWalls (newPheromoneGrid 600 600)
      (1 / 2) (1 / 2)
      \<lparr> agent_x = 589, agent_y = 300, angle = 0, state = FORAGING, pheromoneStrength = 1,
        excitedLevel = 0, searchTime = 0, givingUp = False \<rparr> =
      \<lparr> agent_x = 599, agent_y = 300, angle = pi, state = FORAGING, pheromoneStrength = 1,
        excitedLevel = 0, searchTime = 0, givingUp = False \<rparr>"
    by (simp add: update_move_def params_def perimeterWalls_def
        handleBoundaries_def newPheromoneGrid_def Let_def)
  have g: "giveUpCheck (params\<lparr> moveSpeed := 12 \<rparr>) grid a = a" for grid a
    by (simp add: giveUpCheck_def params_def)
  have pv: "usePheromoneGradient (params\<lparr> moveSpeed := 12 \<rparr>)"
    "singlePheromoneMode (params\<lparr> moveSpeed := 12 \<rparr>)"
    "propagationChance (params\<lparr> moveSpeed := 12 \<rparr>) = 1 / 10"
    by (simp_all add: params_def)
  have u: "agentAfter (update (params\<lparr> moveSpeed := 12 \<rparr>) perimeterWalls
      [\<lparr> nest_x = 300, nest_y = 300, nest_r = 20, surgeTimer = 0 \<rparr>] []
      (rnd_const (1 / 2)) (newPheromoneGrid 600 600)
      [\<lparr> agent_x = 589, agent_y = 300, angle = 0, state = FORAGING, pheromoneStrength = 1,
         excitedLevel = 0, searchTime = 0, givingUp = False \<rparr>] 0
      \<lparr> agent_x = 589, agent_y = 300, angle = 0, state = FORAGING, pheromoneStrength = 1,
        excitedLevel = 0, searchTime = 0, givingUp = False \<rparr>) =
      Some \<lparr> agent_x = 599, agent_y = 300, angle = pi, state = FORAGING,
        pheromoneStrength = 199 / 200, excitedLevel = 0, searchTime = 0, givingUp = False \<rparr>"
    unfolding update_def decayExcitement_def
    by (simp add: Let_def s g m[unfolded rnd_const_def] rnd_const_def pv
        handleStateAndPheromones_def agentAfter_def fade_def hypot_def)
  show ?thesis
    unfolding u by (simp add: perimeterWalls_def strictlyInside_def)
qed

subsection \<open>C3: the cells stay in the unit interval\<close>

text \<open>
  Claim C3: after every sequence of deposits of nonnegative amounts, decays with a rate
  in \<open>(0, 1]\<close> and resets, starting from the all-zero field, every cell of both
  channels lies in \<open>[0, 1]\<close>; and after a decay of such a field every cell is either
  exactly 0 or at least 0.001.
\<close>

theorem field_cells_stay_in_unit_interval:
  assumes "list_all valid_op ops"
  shows "unit_cells (homeGrid (foldl (applyOp single) (newPheromoneGrid w h) ops)) \<and>
         unit_cells (foodGrid (foldl (applyOp single) (newPheromoneGrid w h) ops)) \<and>
         snapped_cells (homeGrid (evaporate rate (foldl (applyOp single) (newPheromoneGrid w h) ops))) \<and>
         snapped_cells (foodGrid (evaporate rate (foldl (applyOp single) (newPheromoneGrid w h) ops)))"
proof -
  have z: "unit_cells (homeGrid (newPheromoneGrid w h))" "unit_cells (foodGrid (newPheromoneGrid w h))"
    by (simp_all add: newPheromoneGrid_def unit_cells_zero)
  note run = unit_cells_run[OF grid_ok_new z assms, of single]
  from run have "length (foodGrid (foldl (applyOp single) (newPheromoneGrid w h) ops)) =
                 length (homeGrid (foldl (applyOp single) (newPheromoneGrid w h) ops))"
    by (simp add: grid_ok_def)
  then show ?thesis using run by (simp add: evaporate_home evaporate_food snapped_cells_decay)
qed

text \<open>The claim at two capped deposits, a decay, a reset and one more deposit.\<close>

theorem field_cells_stay_in_unit_interval_witness:
  "list_all valid_op [Deposit 0 0 HOME (7 / 10), Deposit 0 0 HOME (7 / 10), Decay (1 / 2), Reset,
      Deposit 1 0 FOOD (1 / 2)] \<and>
   unit_cells (homeGrid (foldl (applyOp False) (newPheromoneGrid 2 1)
     [Deposit 0 0 HOME (7 / 10), Deposit 0 0 HOME (7 / 10), Decay (1 / 2), Reset,
      Deposit 1 0 FOOD (1 / 2)])) \<and>
   unit_cells (foodGrid (foldl (applyOp False) (newPheromoneGrid 2 1)
     [Deposit 0 0 HOME (7 / 10), Deposit 0 0 HOME (7 / 10), Decay (1 / 2), Reset,
      Deposit 1 0 FOOD (1 / 2)])) \<and>
   snapped_cells (homeGrid (evaporate (1 / 2) (foldl (applyOp False) (newPheromoneGrid 2 1)
     [Deposit 0 0 HOME (7 / 10), Deposit 0 0 HOME (7 / 10), Decay (1 / 2), Reset,
      Deposit 1 0 FOOD (1 / 2)]))) \<and>
   snapped_cells (foodGrid (evaporate (1 / 2) (foldl (applyOp False) (newPheromoneGrid 2 1)
     [Deposit 0 0 HOME (7 / 10), Deposit 0 0 HOME (7 / 10), Decay (1 / 2), Reset,
      Deposit 1 0 FOOD (1 / 2)])))"
proof -
  have h: "list_all valid_op [Deposit 0 0 HOME (7 / 10), Deposit 0 0 HOME (7 / 10), Decay (1 / 2),
      Reset, Deposit 1 0 FOOD (1 / 2)]"
    by simp
  from field_cells_stay_in_unit_interval[OF h, of False 2 1 "1 / 2"] h show ?thesis
    by (simp only: simp_thms)
qed

subsection \<open>C4: the sentinel of getLevel\<close>

text \<open>
  Claim C4: on a field whose cells lie in \<open>[0, 1]\<close>, \<open>getLevel\<close> returns \<open>-1\<close> exactly
  when the query point lies outside \<open>[0, W) \<times> [0, H)\<close>; for a point inside it returns the
  stored value of the effective channel at the cell \<open>(floor(x), floor(y))\<close>, a value in
  \<open>[0, 1]\<close>.
\<close>

theorem getLevel_sentinel_iff_out_of_bounds:
  assumes "grid_ok g" and "unit_cells (homeGrid g)" and "unit_cells (foodGrid g)"
  shows "(getLevel single g x y c = - 1 \<longleftrightarrow> \<not> inBounds g x y) \<and>
         (inBounds g x y \<longrightarrow>
            getLevel single g x y c =
              (if single \<or> c = HOME then homeGrid g else foodGrid g) !
                (nat \<lfloor>y\<rfloor> * width g + nat \<lfloor>x\<rfloor>) \<and>
            0 \<le> getLevel single g x y c \<and> getLevel single g x y c \<le> 1)"
proof (cases "inBounds g x y")
  case False
  then show ?thesis by (simp add: getLevel_out_of_bounds)
next
  case True
  define k where "k = nat \<lfloor>y\<rfloor> * width g + nat \<lfloor>x\<rfloor>"
  have k: "k < length (homeGrid g)" "k < length (foodGrid g)"
    using inBounds_index(3)[OF True] assms(1) by (simp_all add: k_def grid_ok_def)
  have v: "getLevel single g x y c = (if single \<or> c = HOME then homeGrid g else foodGrid g) ! k"
    unfolding k_def getLevel_in_bounds[OF True] by simp
  have r: "0 \<le> (if single \<or> c = HOME then homeGrid g else foodGrid g) ! k \<and>
           (if single \<or> c = HOME then homeGrid g else foodGrid g) ! k \<le> 1"
    using unit_cells_nth[OF assms(2) k(1)] unit_cells_nth[OF assms(3) k(2)] by simp
  show ?thesis using True v r by (simp add: k_def)
qed

text \<open>The claim at a point inside and at a point outside a 2 by 2 grid.\<close>

theorem getLevel_sentinel_iff_out_of_bounds_witness:
  "grid_ok (newPheromoneGrid 2 2) \<and> unit_cells (homeGrid (newPheromoneGrid 2 2)) \<and>
   unit_cells (foodGrid (newPheromoneGrid 2 2)) \<and> inBounds (newPheromoneGrid 2 2) (1 / 2) (3 / 2) \<and>
   getLevel False (newPheromoneGrid 2 2) (1 / 2) (3 / 2) FOOD \<noteq> - 1 \<and>
   getLevel False (newPheromoneGrid 2 2) (1 / 2) (3 / 2) FOOD = foodGrid (newPheromoneGrid 2 2) ! 2 \<and>
   \<not> inBounds (newPheromoneGrid 2 2) 2 0 \<and>
   getLevel False (newPheromoneGrid 2 2) 2 0 FOOD = - 1"
proof -
  have h: "grid_ok (newPheromoneGrid 2 2)" "unit_cells (homeGrid (newPheromoneGrid 2 2))"
    "unit_cells (foodGrid (newPheromoneGrid 2 2))"
    by (simp_all add: grid_ok_def newPheromoneGrid_def unit_cells_zero)
  have i: "inBounds (newPheromoneGrid 2 2) (1 / 2) (3 / 2)" "\<not> inBounds (newPheromoneGrid 2 2) 2 0"
    by (simp_all add: inBounds_def newPheromoneGrid_def)
  have f: "nat \<lfloor>3 / 2 :: real\<rfloor> * width (newPheromoneGrid 2 2) + nat \<lfloor>1 / 2 :: real\<rfloor> = 2"
    by (simp add: newPheromoneGrid_def)
  from getLevel_sentinel_iff_out_of_bounds[OF h, of False "1 / 2" "3 / 2" FOOD]
       getLevel_sentinel_iff_out_of_bounds[OF h, of False 2 0 FOOD] h i
  show ?thesis
    unfolding f by simp
qed

subsection \<open>C5: single-channel mode\<close>

text \<open>
  Claim C5: in single-channel mode a deposit on FOOD at an in-bounds point is read back
  on HOME at that point, and a deposit on HOME is read back on FOOD: the value read is
  the single-precision value that the deposit stored, the capped double sum of the old
  level and the amount. A deposit on FOOD is the same deposit as one on HOME; every
  deposit goes to the home grid and every read comes from it. With the mode off, a
  deposit on one channel changes no value read on the other channel, at any point.
\<close>

theorem single_channel_mode_redirects:
  assumes "grid_ok g" and "inBounds g x y"
  shows "getLevel True (deposit True g x y FOOD amount) x y HOME
           = fround (min 1 (dround (getLevel True g x y HOME + amount))) \<and>
         getLevel True (deposit True g x y HOME amount) x y FOOD
           = fround (min 1 (dround (getLevel True g x y FOOD + amount))) \<and>
         deposit True g x y FOOD amount = deposit True g x y HOME amount \<and>
         foodGrid (deposit True g x y c amount) = foodGrid g \<and>
         getLevel True g x y c = homeGrid g ! (nat \<lfloor>y\<rfloor> * width g + nat \<lfloor>x\<rfloor>) \<and>
         (c \<noteq> c' \<longrightarrow>
            getLevel False (deposit False g x' y' c amount) x'' y'' c' = getLevel False g x'' y'' c')"
proof -
  define k where "k = nat \<lfloor>y\<rfloor> * width g + nat \<lfloor>x\<rfloor>"
  have k: "k < length (homeGrid g)"
    using inBounds_index(3)[OF assms(2)] assms(1) by (simp add: k_def grid_ok_def)
  have ib: "inBounds (deposit True g x y t amount) x y" for t
    using assms(2) by (simp add: inBounds_def deposit_other_grid)
  have a: "getLevel True (deposit True g x y t amount) x y t'
             = fround (min 1 (dround (getLevel True g x y t' + amount)))"
    for t t'
  proof -
    have "getLevel True (deposit True g x y t amount) x y t' = homeGrid (deposit True g x y t amount) ! k"
      by (simp add: getLevel_in_bounds[OF ib] k_def deposit_other_grid)
    also have "homeGrid (deposit True g x y t amount) =
                 (homeGrid g)[k := fround (min 1 (dround (homeGrid g ! k + amount)))]"
      by (simp add: deposit_in_bounds[OF assms] k_def)
    also have "\<dots> ! k = fround (min 1 (dround (homeGrid g ! k + amount)))"
      using k by simp
    also have "homeGrid g ! k = getLevel True g x y t'"
      by (simp add: getLevel_in_bounds[OF assms(2)] k_def)
    finally show ?thesis .
  qed
  have b: "c \<noteq> c' \<Longrightarrow>
      getLevel False (deposit False g x' y' c amount) x'' y'' c' = getLevel False g x'' y'' c'"
    by (cases c; cases c') (simp_all add: getLevel_def deposit_other_grid)
  have d: "deposit True g x y FOOD amount = deposit True g x y HOME amount"
    by (simp add: deposit_def)
  show ?thesis
    using a b d by (simp add: deposit_other_grid getLevel_in_bounds[OF assms(2)])
qed

text \<open>
  The claim at a deposit of 0.3 into a fresh 2 by 2 grid: the value read back is
  \<open>5033165 / 2 ^ 24\<close>, the single-precision value next to 0.3.
\<close>

theorem single_channel_mode_redirects_witness:
  "grid_ok (newPheromoneGrid 2 2) \<and> inBounds (newPheromoneGrid 2 2) (1 / 2) (3 / 2) \<and> FOOD \<noteq> HOME \<and>
   getLevel True (deposit True (newPheromoneGrid 2 2) (1 / 2) (3 / 2) FOOD (3 / 10)) (1 / 2) (3 / 2) HOME
     = 5033165 / 16777216 \<and>
   getLevel True (deposit True (newPheromoneGrid 2 2) (1 / 2) (3 / 2) HOME (3 / 10)) (1 / 2) (3 / 2) FOOD
     = 5033165 / 16777216 \<and>
   getLevel False (deposit False (newPheromoneGrid 2 2) (1 / 2) (3 / 2) FOOD (3 / 10)) (1 / 2) (3 / 2) HOME
     = getLevel False (newPheromoneGrid 2 2) (1 / 2) (3 / 2) HOME"
proof -
  have h: "grid_ok (newPheromoneGrid 2 2)" "inBounds (newPheromoneGrid 2 2) (1 / 2) (3 / 2)"
    by (simp_all add: grid_ok_def newPheromoneGrid_def inBounds_def)
  have z: "getLevel True (newPheromoneGrid 2 2) (1 / 2) (3 / 2) c = 0" for c
    by (simp add: getLevel_def newPheromoneGrid_def Let_def numeral_eq_Suc)
  have r: "fround (min 1 (dround (3 / 10))) = 5033165 / 16777216"
    by (simp add: dround_3_10 fround_dround_3_10)
  note t = single_channel_mode_redirects[OF h, of "3 / 10" FOOD HOME "1 / 2" "3 / 2" "1 / 2" "3 / 2"]
  have c1: "getLevel True (deposit True (newPheromoneGrid 2 2) (1 / 2) (3 / 2) FOOD (3 / 10))
              (1 / 2) (3 / 2) HOME = 5033165 / 16777216"
    using t[THEN conjunct1] by (simp only: z add_0 r)
  have c2: "getLevel True (deposit True (newPheromoneGrid 2 2) (1 / 2) (3 / 2) HOME (3 / 10))
              (1 / 2) (3 / 2) FOOD = 5033165 / 16777216"
    using t[THEN conjunct2, THEN conjunct1] by (simp only: z add_0 r)
  have c3: "getLevel False (deposit False (newPheromoneGrid 2 2) (1 / 2) (3 / 2) FOOD (3 / 10))
              (1 / 2) (3 / 2) HOME = getLevel False (newPheromoneGrid 2 2) (1 / 2) (3 / 2) HOME"
    using t by simp
  show ?thesis
    using h c1 c2 c3 by (simp only: simp_thms PheromoneType.distinct)
qed

subsection \<open>C6: repeated decay\<close>

text \<open>
  Claim C6 says that after \<open>n\<close> decays a cell that held \<open>v\<close> holds exactly \<open>v * r ^ n\<close>
  until that value is below 0.001. The cells are single-precision values, and each
  decay stores the rounded product: with the default rate (the double next to 0.985) a
  cell at 1 holds \<open>8262779 / 2 ^ 23\<close> after one decay, not the rate.
\<close>

theorem decay_stores_rounded_product:
  "homeGrid ((evaporate (8872091265919877 / 9007199254740992) ^^ 1)
      \<lparr> width = 1, height = 1, homeGrid = [1], foodGrid = [0] \<rparr>) ! 0 = 8262779 / 8388608 \<and>
   homeGrid ((evaporate (8872091265919877 / 9007199254740992) ^^ 1)
      \<lparr> width = 1, height = 1, homeGrid = [1], foodGrid = [0] \<rparr>) ! 0
     \<noteq> (if 1 * (8872091265919877 / 9007199254740992) ^ 1 < (1 / 1000 :: real) then 0
         else 1 * (8872091265919877 / 9007199254740992) ^ 1)"
  by (simp add: evaporate_home default_rate_stored)

text \<open>
  Claim C6 as amended: after \<open>n\<close> decays with a rate \<open>r\<close> in \<open>(0, 1]\<close> and no deposit
  between them, a cell of either channel that held \<open>v \<ge> 0\<close> is exactly 0 or at least
  0.001 (for \<open>n > 0\<close>); as long as it is not 0 it is \<open>v * r ^ n\<close> up to the rounding of
  the \<open>n\<close> stores, between \<open>(1 - 2 ^ - 23) ^ n\<close> and \<open>(1 + 2 ^ - 23) ^ n\<close> times that
  value; it is 0 once the upper bound is below 0.001 and it is not 0 while the lower
  bound is at least the threshold; a cell that has reached 0 stays 0 in all later ticks.
\<close>

theorem decay_within_rounding_error:
  assumes "grid_ok g" and "0 < r" and "r \<le> 1" and "i < width g * height g"
    and "cells = homeGrid \<or> cells = foodGrid" and "0 \<le> cells g ! i"
  shows "(0 < n \<longrightarrow> cells ((evaporate r ^^ n) g) ! i = 0 \<or> 1 / 1000 \<le> cells ((evaporate r ^^ n) g) ! i) \<and>
         (cells ((evaporate r ^^ n) g) ! i \<noteq> 0 \<longrightarrow>
            (1 - 1 / 2 ^ 23) ^ n * (cells g ! i * r ^ n) \<le> cells ((evaporate r ^^ n) g) ! i \<and>
            cells ((evaporate r ^^ n) g) ! i \<le> (1 + 1 / 2 ^ 23) ^ n * (cells g ! i * r ^ n)) \<and>
         (0 < n \<and> (1 + 1 / 2 ^ 23) ^ n * (cells g ! i * r ^ n) < 1 / 1000 \<longrightarrow>
            cells ((evaporate r ^^ n) g) ! i = 0) \<and>
         (snapThreshold \<le> (1 - 1 / 2 ^ 23) ^ n * (cells g ! i * r ^ n) \<longrightarrow>
            cells ((evaporate r ^^ n) g) ! i \<noteq> 0) \<and>
         (cells ((evaporate r ^^ n) g) ! i = 0 \<longrightarrow> cells ((evaporate r ^^ (n + m)) g) ! i = 0)"
proof -
  define v where "v = cells g ! i"
  have L: "cells ((evaporate r ^^ k) g) ! i = (decay_cell r ^^ k) v" for k
    unfolding v_def by (rule evaporate_funpow_cell[OF assms(1,4,5)])
  have v0: "0 \<le> v" using assms(6) by (simp add: v_def)
  note snapped = decay_funpow_snapped[where n = n and r = r and v = v]
  note bounds = decay_funpow_bounds[OF v0 assms(2), where n = n]
  note kept = decay_funpow_kept[OF v0 assms(2,3), where n = n]
  note stays = decay_funpow_stays_zero[where n = n and r = r and v = v and m = m]
  have gone: "0 < n \<Longrightarrow> (1 + 1 / 2 ^ 23) ^ n * (v * r ^ n) < 1 / 1000 \<Longrightarrow> (decay_cell r ^^ n) v = 0"
    using snapped bounds by fastforce
  show ?thesis
    unfolding L v_def[symmetric] using snapped bounds kept stays gone by blast
qed

text \<open>
  The amended claim at \<open>v = 1\<close> and \<open>r = 1/2\<close>: the cell is not 0 after 9 ticks, and is 0
  after 10 ticks, since \<open>1/1024\<close> is below 0.001 by more than the error, and after 15.
\<close>

theorem decay_within_rounding_error_witness:
  "grid_ok \<lparr> width = 1, height = 1, homeGrid = [1], foodGrid = [1 / 2] \<rparr> \<and>
   homeGrid ((evaporate (1 / 2) ^^ 9) \<lparr> width = 1, height = 1, homeGrid = [1], foodGrid = [1 / 2] \<rparr>) ! 0
     \<noteq> 0 \<and>
   (1 - 1 / 2 ^ 23) ^ 9 * (1 * (1 / 2) ^ 9)
     \<le> homeGrid ((evaporate (1 / 2) ^^ 9) \<lparr> width = 1, height = 1, homeGrid = [1], foodGrid = [1 / 2] \<rparr>) ! 0 \<and>
   homeGrid ((evaporate (1 / 2) ^^ 10) \<lparr> width = 1, height = 1, homeGrid = [1], foodGrid = [1 / 2] \<rparr>) ! 0
     = 0 \<and>
   homeGrid ((evaporate (1 / 2) ^^ (10 + 5)) \<lparr> width = 1, height = 1, homeGrid = [1], foodGrid = [1 / 2] \<rparr>) ! 0
     = 0"
proof -
  define g where "g = \<lparr> width = 1, height = 1, homeGrid = [1 :: real], foodGrid = [1 / 2 :: real] \<rparr>"
  have h: "grid_ok g" "(0::real) < 1 / 2" "(1 / 2 :: real) \<le> 1" "0 < width g * height g"
    "homeGrid = homeGrid \<or> homeGrid = foodGrid" "0 \<le> homeGrid g ! 0"
    by (simp_all add: grid_ok_def g_def)
  have v: "homeGrid g ! 0 = 1" by (simp add: g_def)
  have a9: "snapThreshold \<le> (1 - 1 / 2 ^ 23) ^ 9 * (1 * (1 / 2) ^ 9)"
    unfolding snapThreshold_value by (simp add: power_one_over power_divide)
  have a10: "(0::nat) < 10 \<and> (1 + 1 / 2 ^ 23) ^ 10 * (1 * (1 / 2) ^ 10) < (1 / 1000 :: real)"
    by (simp add: power_one_over power_divide)
  note t9 = decay_within_rounding_error[OF h, of 9 5, unfolded v]
  note t10 = decay_within_rounding_error[OF h, of 10 5, unfolded v]
  have n9: "homeGrid ((evaporate (1 / 2) ^^ 9) g) ! 0 \<noteq> 0"
    using t9 a9 by blast
  have b9: "(1 - 1 / 2 ^ 23) ^ 9 * (1 * (1 / 2) ^ 9) \<le> homeGrid ((evaporate (1 / 2) ^^ 9) g) ! 0"
    using t9 n9 by blast
  have z10: "homeGrid ((evaporate (1 / 2) ^^ 10) g) ! 0 = 0"
    using t10 a10 by blast
  have z15: "homeGrid ((evaporate (1 / 2) ^^ (10 + 5)) g) ! 0 = 0"
    using t10 z10 by blast
  show ?thesis
    using h(1) n9 b9 z10 z15 unfolding g_def by (simp only: simp_thms)
qed

subsection \<open>C7: the spawn budget\<close>

text \<open>
  Claim C7 says that after \<open>k\<close> ticks the number of agents spawned is the whole part of
  \<open>k * spawnRate\<close>. With sortie regulation enabled the loop skips a spawn at a nest
  whose surge timer is not running whenever the random draw exceeds 0.01, while the
  accumulator has already been charged: with \<open>spawnRate = 1\<close> and a draw of one half,
  one tick spawns nothing. And the accumulator is a double: with sortie regulation off
  and the spawn rate 0.1 (the double next to it), ten additions give
  \<open>1 - 2 ^ - 53\<close>, so that no agent is spawned in ten ticks.
\<close>

theorem spawn_count_falls_short:
  "spawnTicks (params\<lparr> enableSortieRegulation := True, spawnRate := 1 \<rparr>)
      [([\<lparr> nest_x = 300, nest_y = 300, nest_r = 20, surgeTimer = 0 \<rparr>], rnd_const (1 / 2))]
      initAgents = Some \<lparr> agents = [], spawnAccumulator = 0 \<rparr> \<and>
   \<lfloor>real (length [([\<lparr> nest_x = 300, nest_y = 300, nest_r = 20, surgeTimer = 0 \<rparr>],
        rnd_const (1 / 2))]) * spawnRate (params\<lparr> enableSortieRegulation := True, spawnRate := 1 \<rparr>)\<rfloor>
     = 1 \<and>
   spawnTicks (params\<lparr> spawnRate := 3602879701896397 / 36028797018963968 \<rparr>)
      (replicate 10 ([\<lparr> nest_x = 300, nest_y = 300, nest_r = 20, surgeTimer = 0 \<rparr>], rnd_const (1 / 2)))
      initAgents
     = Some \<lparr> agents = [], spawnAccumulator = 9007199254740991 / 9007199254740992 \<rparr> \<and>
   \<lfloor>real (length (replicate 10
        ([\<lparr> nest_x = 300, nest_y = 300, nest_r = 20, surgeTimer = 0 \<rparr>], rnd_const (1 / 2)))) *
      spawnRate (params\<lparr> spawnRate := 3602879701896397 / 36028797018963968 \<rparr>)\<rfloor> = 1"
proof -
  have a: "spawnTicks (params\<lparr> enableSortieRegulation := True, spawnRate := 1 \<rparr>)
      [([\<lparr> nest_x = 300, nest_y = 300, nest_r = 20, surgeTimer = 0 \<rparr>], rnd_const (1 / 2))]
      initAgents = Some \<lparr> agents = [], spawnAccumulator = 0 \<rparr>"
    by (simp add: spawnStep_def params_def initAgents_def rnd_const_def Let_def round_one)
  have r: "replicate 10 x = [x, x, x, x, x, x, x, x, x, x]" for x :: "Nest list \<times> (nat \<Rightarrow> real)"
    by (simp add: numeral_eq_Suc)
  have b: "spawnTicks (params\<lparr> spawnRate := 3602879701896397 / 36028797018963968 \<rparr>)
      (replicate 10 ([\<lparr> nest_x = 300, nest_y = 300, nest_r = 20, surgeTimer = 0 \<rparr>], rnd_const (1 / 2)))
      initAgents
     = Some \<lparr> agents = [], spawnAccumulator = 9007199254740991 / 9007199254740992 \<rparr>"
    unfolding r
    by (simp add: spawnStep_def params_def initAgents_def Let_def tenth_accumulated)
  show ?thesis
    using a b by (simp add: params_def)
qed

text \<open>
  Claim C7 as amended: when no spawn is throttled (sortie regulation is off, or the surge
  timer of every nest runs) and the spawn rate is \<open>j / 2 ^ m\<close> for a whole \<open>j \<ge> 0\<close>
  with \<open>j + 2 ^ m \<le> 2 ^ 53\<close>, so that every sum of the accumulator is exact, then from
  \<open>initAgents\<close> the spawn blocks of \<open>k\<close> ticks (each with at least one nest) run
  without error and leave \<open>min agentCount (floor (k * spawnRate))\<close> agents (none for a
  negative \<open>agentCount\<close>); as long as \<open>floor (k * spawnRate)\<close> is below \<open>agentCount\<close>, the
  accumulator holds the fractional part of \<open>k * spawnRate\<close>.
\<close>

theorem spawn_budget_with_exact_accumulator:
  assumes "list_all (tick_ok p) ticks"
    and "spawnRate p = real_of_int j / 2 ^ m" and "0 \<le> j" and "j + 2 ^ m \<le> 2 ^ 53"
  shows "\<exists>st. spawnTicks p ticks initAgents = Some st \<and>
           int (length (agents st)) =
             max 0 (min (agentCount p) \<lfloor>real (length ticks) * spawnRate p\<rfloor>) \<and>
           (\<lfloor>real (length ticks) * spawnRate p\<rfloor> < agentCount p \<longrightarrow>
              spawnAccumulator st = frac (real (length ticks) * spawnRate p))"
proof -
  have "spawn_inv p 0 initAgents"
    by (simp add: spawn_inv_def initAgents_def)
  from spawnTicks_inv[OF assms(2,3,4) assms(1) this] show ?thesis
    by (simp add: spawn_inv_def)
qed

text \<open>
  The amended claim at \<open>spawnRate = 1/2\<close>, sortie regulation on with a running surge timer,
  and three ticks: one agent, one half carried.
\<close>

theorem spawn_budget_with_exact_accumulator_witness:
  "list_all (tick_ok (params\<lparr> spawnRate := 1 / 2, enableSortieRegulation := True \<rparr>))
     [([\<lparr> nest_x = 300, nest_y = 300, nest_r = 20, surgeTimer = 600 \<rparr>], rnd_const (1 / 2)),
      ([\<lparr> nest_x = 300, nest_y = 300, nest_r = 20, surgeTimer = 599 \<rparr>], rnd_const (1 / 4)),
      ([\<lparr> nest_x = 300, nest_y = 300, nest_r = 20, surgeTimer = 598 \<rparr>], rnd_const (3 / 4))] \<and>
   spawnRate (params\<lparr> spawnRate := 1 / 2, enableSortieRegulation := True \<rparr>) = real_of_int 1 / 2 ^ 1 \<and>
   (0::int) \<le> 1 \<and> (1::int) + 2 ^ 1 \<le> 2 ^ 53 \<and>
   (\<exists>st. spawnTicks (params\<lparr> spawnRate := 1 / 2, enableSortieRegulation := True \<rparr>)
     [([\<lparr> nest_x = 300, nest_y = 300, nest_r = 20, surgeTimer = 600 \<rparr>], rnd_const (1 / 2)),
      ([\<lparr> nest_x = 300, nest_y = 300, nest_r = 20, surgeTimer = 599 \<rparr>], rnd_const (1 / 4)),
      ([\<lparr> nest_x = 300, nest_y = 300, nest_r = 20, surgeTimer = 598 \<rparr>], rnd_const (3 / 4))]
     initAgents = Some st \<and> length (agents st) = 1 \<and> spawnAccumulator st = 1 / 2)"
proof -
  have h: "list_all (tick_ok (params\<lparr> spawnRate := 1 / 2, enableSortieRegulation := True \<rparr>))
     [([\<lparr> nest_x = 300, nest_y = 300, nest_r = 20, surgeTimer = 600 \<rparr>], rnd_const (1 / 2)),
      ([\<lparr> nest_x = 300, nest_y = 300, nest_r = 20, surgeTimer = 599 \<rparr>], rnd_const (1 / 4)),
      ([\<lparr> nest_x = 300, nest_y = 300, nest_r = 20, surgeTimer = 598 \<rparr>], rnd_const (3 / 4))]"
    "spawnRate (params\<lparr> spawnRate := 1 / 2, enableSortieRegulation := True \<rparr>) = real_of_int 1 / 2 ^ 1"
    "(0::int) \<le> 1" "(1::int) + 2 ^ 1 \<le> 2 ^ 53"
    by (simp_all add: params_def unit_rnd_def rnd_const_def)
  have fl: "\<lfloor>3 / 2 :: real\<rfloor> = 1" "frac (3 / 2 :: real) = 1 / 2"
    by (simp_all add: frac_def)
  from spawn_budget_with_exact_accumulator[OF h] h
  show ?thesis
    by (simp add: params_def fl)
qed

subsection \<open>C8: contact with food\<close>

text \<open>
  Claim C8 says that a RETURNING agent inside a food radius only recharges its trail
  strength. When it is inside the radius of its closest nest as well, the nest branch
  runs first: the agent becomes FORAGING again, drops its excitation and turns by \<open>pi\<close>.
\<close>

theorem returning_agent_at_nest_and_food_transitions:
  "onFood \<lparr> agent_x = 300, agent_y = 300, angle = 0, state = RETURNING, pheromoneStrength = 1 / 2,
        excitedLevel = 2, searchTime = 0, givingUp = False \<rparr>
      [\<lparr> food_x = 310, food_y = 300, food_r = 30, food_surgeTimer = 0 \<rparr>] \<and>
   map_option state (agentAfter (handleStateAndPheromones params
      [\<lparr> nest_x = 300, nest_y = 300, nest_r = 20, surgeTimer = 0 \<rparr>]
      [\<lparr> food_x = 310, food_y = 300, food_r = 30, food_surgeTimer = 0 \<rparr>]
      (newPheromoneGrid 600 600)
      \<lparr> agent_x = 300, agent_y = 300, angle = 0, state = RETURNING, pheromoneStrength = 1 / 2,
        excitedLevel = 2, searchTime = 0, givingUp = False \<rparr>)) = Some FORAGING \<and>
   map_option excitedLevel (agentAfter (handleStateAndPheromones params
      [\<lparr> nest_x = 300, nest_y = 300, nest_r = 20, surgeTimer = 0 \<rparr>]
      [\<lparr> food_x = 310, food_y = 300, food_r = 30, food_surgeTimer = 0 \<rparr>]
      (newPheromoneGrid 600 600)
      \<lparr> agent_x = 300, agent_y = 300, angle = 0, state = RETURNING, pheromoneStrength = 1 / 2,
        excitedLevel = 2, searchTime = 0, givingUp = False \<rparr>)) = Some 0 \<and>
   map_option angle (agentAfter (handleStateAndPheromones params
      [\<lparr> nest_x = 300, nest_y = 300, nest_r = 20, surgeTimer = 0 \<rparr>]
      [\<lparr> food_x = 310, food_y = 300, food_r = 30, food_surgeTimer = 0 \<rparr>]
      (newPheromoneGrid 600 600)
      \<lparr> agent_x = 300, agent_y = 300, angle = 0, state = RETURNING, pheromoneStrength = 1 / 2,
        excitedLevel = 2, searchTime = 0, givingUp = False \<rparr>)) = Some pi"
  by (simp add: handleStateAndPheromones_def agentAfter_def Let_def)

text \<open>
  Claim C8 as amended: with at least one nest, \<open>handleStateAndPheromones\<close> returns, and
  for an agent inside the radius of a food source: a FORAGING agent becomes RETURNING,
  with trail strength 1, excitation level 2 and its heading advanced by \<open>pi\<close>; a RETURNING
  agent that has not reached its closest nest stays RETURNING with the same heading and
  excitation level, and its trail strength is set to 1.
\<close>

theorem food_contact_transition:
  assumes "nests \<noteq> []" and "onFood a foodSources"
  shows "\<exists>g' a' ns'. handleStateAndPheromones p nests foodSources grid a = Some (g', a', ns') \<and>
     (state a = FORAGING \<longrightarrow>
        state a' = RETURNING \<and> pheromoneStrength a' = 1 \<and> excitedLevel a' = 2 \<and>
        angle a' = angle a + pi) \<and>
     (state a = RETURNING \<and> \<not> nestReached a nests \<longrightarrow>
        state a' = RETURNING \<and> pheromoneStrength a' = 1 \<and> excitedLevel a' = excitedLevel a \<and>
        angle a' = angle a)"
  using assms
  by (cases "state a")
     (auto simp: handleStateAndPheromones_def nestReached_def fade_def Let_def split: prod.splits)

text \<open>The amended claim at a FORAGING and at a RETURNING agent on the centre of a food source.\<close>

theorem food_contact_transition_witness:
  "[\<lparr> nest_x = 300, nest_y = 100, nest_r = 20, surgeTimer = 0 \<rparr>] \<noteq> [] \<and>
   onFood \<lparr> agent_x = 100, agent_y = 100, angle = 0, state = FORAGING, pheromoneStrength = 1 / 2,
            excitedLevel = 0, searchTime = 0, givingUp = False \<rparr>
      [\<lparr> food_x = 100, food_y = 100, food_r = 30, food_surgeTimer = 0 \<rparr>] \<and>
   (\<exists>g' a' ns'. handleStateAndPheromones params
        [\<lparr> nest_x = 300, nest_y = 100, nest_r = 20, surgeTimer = 0 \<rparr>]
        [\<lparr> food_x = 100, food_y = 100, food_r = 30, food_surgeTimer = 0 \<rparr>]
        (newPheromoneGrid 600 600)
        \<lparr> agent_x = 100, agent_y = 100, angle = 0, state = FORAGING, pheromoneStrength = 1 / 2,
          excitedLevel = 0, searchTime = 0, givingUp = False \<rparr> = Some (g', a', ns') \<and>
      state a' = RETURNING \<and> pheromoneStrength a' = 1 \<and> excitedLevel a' = 2 \<and> angle a' = pi) \<and>
   \<not> nestReached \<lparr> agent_x = 100, agent_y = 100, angle = 0, state = RETURNING,
            pheromoneStrength = 1 / 2, excitedLevel = 2, searchTime = 0, givingUp = False \<rparr>
      [\<lparr> nest_x = 300, nest_y = 100, nest_r = 20, surgeTimer = 0 \<rparr>] \<and>
   (\<exists>g' a' ns'. handleStateAndPheromones params
        [\<lparr> nest_x = 300, nest_y = 100, nest_r = 20, surgeTimer = 0 \<rparr>]
        [\<lparr> food_x = 100, food_y = 100, food_r = 30, food_surgeTimer = 0 \<rparr>]
        (newPheromoneGrid 600 600)
        \<lparr> agent_x = 100, agent_y = 100, angle = 0, state = RETURNING, pheromoneStrength = 1 / 2,
          excitedLevel = 2, searchTime = 0, givingUp = False \<rparr> = Some (g', a', ns') \<and>
      state a' = RETURNING \<and> pheromoneStrength a' = 1 \<and> excitedLevel a' = 2 \<and> angle a' = 0)"
proof -
  have n: "[\<lparr> nest_x = 300, nest_y = 100, nest_r = 20, surgeTimer = 0 \<rparr>] \<noteq> []"
    by simp
  have f: "onFood \<lparr> agent_x = 100, agent_y = 100, angle = 0, state = s, pheromoneStrength = 1 / 2,
            excitedLevel = e, searchTime = 0, givingUp = False \<rparr>
      [\<lparr> food_x = 100, food_y = 100, food_r = 30, food_surgeTimer = 0 \<rparr>]" for s e
    by simp
  have r: "\<not> nestReached \<lparr> agent_x = 100, agent_y = 100, angle = 0, state = RETURNING,
            pheromoneStrength = 1 / 2, excitedLevel = 2, searchTime = 0, givingUp = False \<rparr>
      [\<lparr> nest_x = 300, nest_y = 100, nest_r = 20, surgeTimer = 0 \<rparr>]"
    by (simp add: nestReached_def)
  from food_contact_transition[OF n f[of FORAGING 0], where p = params and grid = "newPheromoneGrid 600 600"]
       food_contact_transition[OF n f[of RETURNING 2], where p = params and grid = "newPheromoneGrid 600 600"]
       n f[of FORAGING 0] r
  show ?thesis
    by simp
qed

subsection \<open>C9: the arena edges\<close>

text \<open>
  Claim C9: on a grid with at least one column and one row, \<open>handleBoundaries\<close> sets a
  negative \<open>x\<close> to 0 and an \<open>x\<close> of at least \<open>W\<close> to \<open>W - 1\<close>, and likewise \<open>y\<close>, so
  that the position lies in \<open>[0, W) \<times> [0, H)\<close>; the heading \<open>\<theta>\<close> becomes \<open>pi - \<theta>\<close> at a
  left or right edge, and is negated at an upper or lower edge.
\<close>

theorem handleBoundaries_clamps_and_reflects:
  assumes "0 < width g" and "0 < height g"
  shows "agent_x (handleBoundaries g a) =
           (if agent_x a < 0 then 0
            else if agent_x a \<ge> real (width g) then real (width g) - 1 else agent_x a) \<and>
         agent_y (handleBoundaries g a) =
           (if agent_y a < 0 then 0
            else if agent_y a \<ge> real (height g) then real (height g) - 1 else agent_y a) \<and>
         0 \<le> agent_x (handleBoundaries g a) \<and> agent_x (handleBoundaries g a) < real (width g) \<and>
         0 \<le> agent_y (handleBoundaries g a) \<and> agent_y (handleBoundaries g a) < real (height g) \<and>
         angle (handleBoundaries g a) =
           (if agent_y a < 0 \<or> agent_y a \<ge> real (height g)
            then - (if agent_x a < 0 \<or> agent_x a \<ge> real (width g) then pi - angle a else angle a)
            else (if agent_x a < 0 \<or> agent_x a \<ge> real (width g) then pi - angle a else angle a))"
proof -
  have w: "1 \<le> real (width g)" and h: "1 \<le> real (height g)"
    using assms by simp_all
  show ?thesis
    using w h by (simp add: handleBoundaries_def Let_def)
qed

text \<open>The claim at an agent that left the 600 by 600 arena at its lower left corner.\<close>

theorem handleBoundaries_clamps_and_reflects_witness:
  "0 < width (newPheromoneGrid 600 600) \<and> 0 < height (newPheromoneGrid 600 600) \<and>
   agent_x (handleBoundaries (newPheromoneGrid 600 600)
     \<lparr> agent_x = - 3 / 2, agent_y = 601, angle = pi, state = FORAGING, pheromoneStrength = 1,
       excitedLevel = 0, searchTime = 0, givingUp = False \<rparr>) = 0 \<and>
   agent_y (handleBoundaries (newPheromoneGrid 600 600)
     \<lparr> agent_x = - 3 / 2, agent_y = 601, angle = pi, state = FORAGING, pheromoneStrength = 1,
       excitedLevel = 0, searchTime = 0, givingUp = False \<rparr>) = 599 \<and>
   angle (handleBoundaries (newPheromoneGrid 600 600)
     \<lparr> agent_x = - 3 / 2, agent_y = 601, angle = pi, state = FORAGING, pheromoneStrength = 1,
       excitedLevel = 0, searchTime = 0, givingUp = False \<rparr>) = 0"
proof -
  have h: "0 < width (newPheromoneGrid 600 600)" "0 < height (newPheromoneGrid 600 600)"
    by (simp_all add: newPheromoneGrid_def)
  have wh: "width (newPheromoneGrid 600 600) = 600" "height (newPheromoneGrid 600 600) = 600"
    by (simp_all add: newPheromoneGrid_def)
  from handleBoundaries_clamps_and_reflects[OF h, of
      "\<lparr> agent_x = - 3 / 2, agent_y = 601, angle = pi, state = FORAGING, pheromoneStrength = 1,
         excitedLevel = 0, searchTime = 0, givingUp = False \<rparr>"] h
  show ?thesis
    unfolding wh by simp
qed

subsection \<open>C10: the two revisions of PheromoneGrid\<close>

text \<open>
  Claim C10: \<open>deposit\<close>, \<open>getLevel\<close>, \<open>evaporate\<close> and \<open>reset\<close> of \<open>main.ts\<close> and of the
  earlier revision return the same grid and the same value on every input.
\<close>

theorem revisions_agree:
  "deposit_old single g x y c amount = deposit single g x y c amount \<and>
   getLevel_old single g x y c = getLevel single g x y c \<and>
   evaporate_old rate g = evaporate rate g \<and>
   reset_old g = reset g"
  by (simp add: deposit_old_def deposit_def getLevel_old_def getLevel_def
      evaporate_old_def evaporate_def evaporate_loop_old_eq reset_old_def reset_def)

end
